theory Spec2Isabelle
  imports Complex_Main "HOL-Library.Sublist" "HOL-Library.AList"
begin

section \<open>JavaScript values\<close>

text \<open>
  The handlers of \<^verbatim>\<open>server.js\<close> work on values produced by \<^verbatim>\<open>JSON.parse\<close>: the
  request body of \<^verbatim>\<open>/api/subscribe\<close> and the response bodies of the two upstream
  services. Such a value is a JSON tree. The type parameter \<open>'n\<close> is the engine's number
  type (IEEE doubles); its operations are fields of the runtime record below, so nothing
  proved here depends on how floating point rounds. A property that is \<^verbatim>\<open>undefined\<close>
  is \<open>None\<close> of type \<open>'n json option\<close>. An object is the list of its own properties
  in insertion order, read with \<open>map_of\<close>.
\<close>

datatype 'n json =
    JNull
  | JBool bool
  | JNum 'n
  | JStr string
  | JArr "'n json list"
  | JObj "(string \<times> 'n json) list"

datatype js_error =
    Error string
  | TypeError string
  | SyntaxError string
  | URIError string

fun message :: "js_error \<Rightarrow> string" where
  "message (Error m) = m"
| "message (TypeError m) = m"
| "message (SyntaxError m) = m"
| "message (URIError m) = m"

text \<open>
  What the code takes from the JavaScript engine and does not define itself: number
  arithmetic and formatting, \<^verbatim>\<open>parseFloat\<close> on a string, \<^verbatim>\<open>Number.isFinite\<close>,
  \<^verbatim>\<open>Math.round\<close>, the literals \<^verbatim>\<open>0.5\<close>, \<^verbatim>\<open>10\<close> and \<^verbatim>\<open>5.5\<close>, \<^verbatim>\<open>JSON.parse\<close>
  (which throws on malformed text), \<^verbatim>\<open>JSON.stringify\<close> and \<^verbatim>\<open>encodeURIComponent\<close>
  (which throws on a lone surrogate).
\<close>

record 'n js_runtime =
  num_truthy :: "'n \<Rightarrow> bool"
  num_same :: "'n \<Rightarrow> 'n \<Rightarrow> bool"
  num_to_string :: "'n \<Rightarrow> string"
  parseFloat_str :: "string \<Rightarrow> 'n"
  isFinite :: "'n \<Rightarrow> bool"
  num_add :: "'n \<Rightarrow> 'n \<Rightarrow> 'n"
  num_mul :: "'n \<Rightarrow> 'n \<Rightarrow> 'n"
  num_div :: "'n \<Rightarrow> 'n \<Rightarrow> 'n"
  Math_round :: "'n \<Rightarrow> 'n"
  lit_0_5 :: 'n
  lit_10 :: 'n
  lit_5_5 :: 'n
  JSON_parse :: "string \<Rightarrow> js_error + 'n json"
  JSON_stringify :: "'n json \<Rightarrow> string"
  encodeURIComponent :: "string \<Rightarrow> js_error + string"

text \<open>\<^verbatim>\<open>ToBoolean\<close>: what \<^verbatim>\<open>!x\<close>, \<^verbatim>\<open>x || y\<close> and \<^verbatim>\<open>x && y\<close> test.\<close>

fun truthy :: "'n js_runtime \<Rightarrow> 'n json \<Rightarrow> bool" where
  "truthy rt JNull = False"
| "truthy rt (JBool b) = b"
| "truthy rt (JNum n) = num_truthy rt n"
| "truthy rt (JStr s) = (s \<noteq> [])"
| "truthy rt (JArr xs) = True"
| "truthy rt (JObj kvs) = True"

fun truthy_opt :: "'n js_runtime \<Rightarrow> 'n json option \<Rightarrow> bool" where
  "truthy_opt rt None = False"
| "truthy_opt rt (Some v) = truthy rt v"

text \<open>
  Reading a named property \<^verbatim>\<open>v.k\<close> of a value that is not \<^verbatim>\<open>null\<close>. Only an object
  has the names the code reads (\<^verbatim>\<open>email\<close>, \<^verbatim>\<open>tags\<close>, \<^verbatim>\<open>value\<close>, ...); strings,
  numbers, booleans and arrays answer \<^verbatim>\<open>undefined\<close>. Reading a property of \<^verbatim>\<open>null\<close>
  throws, which each caller below writes out.
\<close>

fun get_prop :: "'n json \<Rightarrow> string \<Rightarrow> 'n json option" where
  "get_prop (JObj kvs) k = map_of kvs k"
| "get_prop v k = None"

text \<open>
  \<^verbatim>\<open>String.prototype.includes\<close>: the pattern occurs at some position of the string.
\<close>

fun str_includes :: "string \<Rightarrow> string \<Rightarrow> bool" where
  "str_includes [] p = (p = [])"
| "str_includes (c # cs) p = (prefix p (c # cs) \<or> str_includes cs p)"

fun join_commas :: "string list \<Rightarrow> string" where
  "join_commas [] = []"
| "join_commas [s] = s"
| "join_commas (s # t # ss) = s @ '','' @ join_commas (t # ss)"

fun sequence_sum :: "('e + 'a) list \<Rightarrow> 'e + 'a list" where
  "sequence_sum [] = Inr []"
| "sequence_sum (Inl e # rs) = Inl e"
| "sequence_sum (Inr x # rs) = (case sequence_sum rs of Inl e \<Rightarrow> Inl e | Inr xs \<Rightarrow> Inr (x # xs))"

text \<open>
  \<^verbatim>\<open>ToString\<close>, applied by template literals, \<^verbatim>\<open>new Error(msg)\<close>, \<^verbatim>\<open>parseFloat\<close> and
  \<^verbatim>\<open>encodeURIComponent\<close>. An array joins its elements with commas, \<^verbatim>\<open>null\<close> elements
  as the empty string. A plain object is \<^verbatim>\<open>[object Object]\<close>, unless it carries an own
  property \<^verbatim>\<open>toString\<close>: no JSON value is callable, the inherited \<^verbatim>\<open>valueOf\<close> returns
  the object itself, and the conversion throws a TypeError.
\<close>

fun ToString :: "'n js_runtime \<Rightarrow> 'n json \<Rightarrow> js_error + string" where
  "ToString rt JNull = Inr ''null''"
| "ToString rt (JBool b) = Inr (if b then ''true'' else ''false'')"
| "ToString rt (JNum n) = Inr (num_to_string rt n)"
| "ToString rt (JStr s) = Inr s"
| "ToString rt (JArr xs) =
     (case sequence_sum (map (\<lambda>x. if x = JNull then Inr [] else ToString rt x) xs) of
        Inl e \<Rightarrow> Inl e
      | Inr ss \<Rightarrow> Inr (join_commas ss))"
| "ToString rt (JObj kvs) =
     (if map_of kvs ''toString'' = None then Inr ''[object Object]''
      else Inl (TypeError ''Cannot convert object to primitive value''))"

fun ToString_opt :: "'n js_runtime \<Rightarrow> 'n json option \<Rightarrow> js_error + string" where
  "ToString_opt rt None = Inr ''undefined''"
| "ToString_opt rt (Some v) = ToString rt v"

text \<open>
  \<^verbatim>\<open>SameValueZero\<close>, the comparison of \<^verbatim>\<open>Array.prototype.includes\<close>: primitives by
  value, arrays and objects by identity. The two sides here always come from two
  different \<^verbatim>\<open>JSON.parse\<close> results, so two arrays or two objects are never the same.
\<close>

fun same_value_zero :: "'n js_runtime \<Rightarrow> 'n json \<Rightarrow> 'n json \<Rightarrow> bool" where
  "same_value_zero rt JNull JNull = True"
| "same_value_zero rt (JBool a) (JBool b) = (a = b)"
| "same_value_zero rt (JNum a) (JNum b) = num_same rt a b"
| "same_value_zero rt (JStr a) (JStr b) = (a = b)"
| "same_value_zero rt x y = False"

section \<open>The outside world\<close>

text \<open>
  A request as \<^verbatim>\<open>fetch\<close> receives it: method, address, the query parameters set through
  \<^verbatim>\<open>url.searchParams\<close>, the \<^verbatim>\<open>Authorization\<close> header, and the value handed to
  \<^verbatim>\<open>JSON.stringify\<close> for the body. The answer is a rejection (the promise of
  \<^verbatim>\<open>fetch\<close> rejects) or a response with its \<^verbatim>\<open>ok\<close> flag and what \<^verbatim>\<open>resp.text()\<close>
  and \<^verbatim>\<open>resp.json()\<close> resolve to, either of which may reject instead.
\<close>

datatype 'n request =
  Request string string "(string \<times> string) list" "string option" "'n json option"

datatype 'n fetch_result =
    Rejects js_error
  | Resp bool "js_error + string" "js_error + 'n json"

text \<open>
  The upstream service is a state \<open>'u\<close> and a transition function from a state and a
  request to an answer and the next state. The world threaded through the handlers holds
  that state and the list of the requests issued so far, oldest first.
\<close>

type_synonym ('u, 'n) fetch_fn = "'u \<Rightarrow> 'n request \<Rightarrow> 'n fetch_result \<times> 'u"

record ('u, 'n) world =
  upstream :: 'u
  calls :: "'n request list"

definition do_fetch ::
  "('u, 'n) fetch_fn \<Rightarrow> 'n request \<Rightarrow> ('u, 'n) world \<Rightarrow> 'n fetch_result \<times> ('u, 'n) world" where
  "do_fetch fetch r w =
     (case fetch (upstream w) r of
        (res, u') \<Rightarrow> (res, \<lparr>upstream = u', calls = calls w @ [r]\<rparr>))"

text \<open>\<^verbatim>\<open>process.env\<close>: a variable is a string or unset.\<close>

record process_env =
  FRED_API_KEY :: "string option"
  FRED_SERIES_ID :: "string option"
  BUTTONDOWN_API_KEY :: "string option"

text \<open>
  What the handlers write to \<^verbatim>\<open>res\<close>: the status of \<^verbatim>\<open>writeHead\<close>, the headers set
  before it, and the object given to \<^verbatim>\<open>JSON.stringify\<close> for \<^verbatim>\<open>end\<close>:
  \<^verbatim>\<open>{ error }\<close>, \<^verbatim>\<open>{ success: true, message }\<close> or a rate payload.
\<close>

record 'n rate_quote =
  ratePercent :: 'n
  rawPercent :: "'n option"
  adjustedAdded :: 'n
  observationDate :: "'n json option"
  source :: string

datatype 'n reply_body =
    NoBody
  | ErrorBody string
  | SuccessBody string
  | QuoteBody "'n rate_quote"

record 'n reply =
  status :: nat
  headers :: "(string \<times> string) list"
  body :: "'n reply_body"

definition cors_headers :: "(string \<times> string) list" where
  "cors_headers =
     [(''Access-Control-Allow-Origin'', ''*''),
      (''Access-Control-Allow-Headers'', ''content-type''),
      (''Content-Type'', ''application/json'')]"

section \<open>The rate quote: \<^verbatim>\<open>fetchFredLatest\<close> and \<^verbatim>\<open>handleRate\<close>\<close>

text \<open>
  \<^verbatim>\<open>Array.isArray(data && data.observations) ? data.observations : []\<close>. A falsy
  \<^verbatim>\<open>data\<close> is the value of the conjunction itself, and is never an array.
\<close>

definition observations_of :: "'n js_runtime \<Rightarrow> 'n json \<Rightarrow> 'n json list" where
  "observations_of rt data =
     (case (if truthy rt data then get_prop data ''observations'' else Some data) of
        Some (JArr xs) \<Rightarrow> xs
      | _ \<Rightarrow> [])"

text \<open>The predicate of \<^verbatim>\<open>obs.find\<close>: \<^verbatim>\<open>o && o.value && o.value !== '.'\<close>.\<close>

definition obs_valid :: "'n js_runtime \<Rightarrow> 'n json \<Rightarrow> bool" where
  "obs_valid rt obs =
     (truthy rt obs \<and> truthy_opt rt (get_prop obs ''value'')
      \<and> get_prop obs ''value'' \<noteq> Some (JStr ''.''))"

text \<open>\<^verbatim>\<open>parseFloat(v)\<close> converts its argument to a string and reads a number off its front.\<close>

definition parseFloat :: "'n js_runtime \<Rightarrow> 'n json option \<Rightarrow> js_error + 'n" where
  "parseFloat rt v =
     (case ToString_opt rt v of Inl e \<Rightarrow> Inl e | Inr s \<Rightarrow> Inr (parseFloat_str rt s))"

definition seriesId_of :: "process_env \<Rightarrow> string" where
  "seriesId_of penv =
     (case FRED_SERIES_ID penv of
        None \<Rightarrow> ''MORTGAGE30US''
      | Some s \<Rightarrow> if s = [] then ''MORTGAGE30US'' else s)"

definition fred_request :: "string \<Rightarrow> string \<Rightarrow> 'n request" where
  "fred_request seriesId key =
     Request ''GET'' ''https://api.stlouisfed.org/fred/series/observations''
       [(''series_id'', seriesId), (''api_key'', key), (''file_type'', ''json''),
        (''sort_order'', ''desc''), (''limit'', ''14'')]
       None None"

text \<open>
  \<^verbatim>\<open>fetchFredLatest\<close> returns a quote or \<^verbatim>\<open>null\<close> (\<open>None\<close>). Everything from the
  \<^verbatim>\<open>fetch\<close> on runs inside \<^verbatim>\<open>try { ... } catch { return null; }\<close>, so every rejection
  and every thrown error is a \<open>None\<close> branch.
\<close>

definition fetchFredLatest ::
  "'n js_runtime \<Rightarrow> process_env \<Rightarrow> ('u, 'n) fetch_fn \<Rightarrow> ('u, 'n) world
   \<Rightarrow> 'n rate_quote option \<times> ('u, 'n) world" where
  "fetchFredLatest rt penv fetch w =
     (let seriesId = seriesId_of penv in
      case FRED_API_KEY penv of
        None \<Rightarrow> (None, w)
      | Some key \<Rightarrow>
          if key = [] then (None, w)
          else
            (case do_fetch fetch (fred_request seriesId key) w of
               (Rejects e, w1) \<Rightarrow> (None, w1)
             | (Resp ok txt js, w1) \<Rightarrow>
                 if \<not> ok then (None, w1)
                 else
                   (case js of
                      Inl e \<Rightarrow> (None, w1)
                    | Inr data \<Rightarrow>
                        (case find (obs_valid rt) (observations_of rt data) of
                           None \<Rightarrow> (None, w1)
                         | Some firstValid \<Rightarrow>
                             (case parseFloat rt (get_prop firstValid ''value'') of
                                Inl e \<Rightarrow> (None, w1)
                              | Inr raw \<Rightarrow>
                                  if \<not> isFinite rt raw then (None, w1)
                                  else
                                    (let adjusted = num_add rt raw (lit_0_5 rt);
                                         rounded =
                                           num_div rt
                                             (Math_round rt (num_mul rt adjusted (lit_10 rt)))
                                             (lit_10 rt)
                                     in (Some \<lparr>ratePercent = rounded, rawPercent = Some raw,
                                               adjustedAdded = lit_0_5 rt,
                                               observationDate = get_prop firstValid ''date'',
                                               source = seriesId\<rparr>, w1)))))))"

record 'n cache_entry =
  ts :: int
  payload :: "'n rate_quote"

definition TTL :: int where
  "TTL = 60 * 60 * 1000"

definition fallback_quote :: "'n js_runtime \<Rightarrow> 'n rate_quote" where
  "fallback_quote rt =
     \<lparr>ratePercent = lit_5_5 rt, rawPercent = None, adjustedAdded = lit_0_5 rt,
      observationDate = Some JNull, source = ''fallback''\<rparr>"

text \<open>
  \<^verbatim>\<open>handleRate\<close>: the module variable \<^verbatim>\<open>fredCache\<close> is passed in and returned;
  \<open>now\<close> is the reading of \<^verbatim>\<open>Date.now()\<close> in milliseconds.
\<close>

definition handleRate ::
  "'n js_runtime \<Rightarrow> process_env \<Rightarrow> ('u, 'n) fetch_fn \<Rightarrow> int \<Rightarrow> string
   \<Rightarrow> 'n cache_entry option \<Rightarrow> ('u, 'n) world
   \<Rightarrow> 'n reply \<times> 'n cache_entry option \<times> ('u, 'n) world" where
  "handleRate rt penv fetch now method fredCache w =
     (if method = ''OPTIONS'' then
        (\<lparr>status = 204, headers = cors_headers, body = NoBody\<rparr>, fredCache, w)
      else if method \<noteq> ''GET'' then
        (\<lparr>status = 405, headers = cors_headers, body = ErrorBody ''Method not allowed''\<rparr>,
         fredCache, w)
      else
        (case (case fredCache of
                 None \<Rightarrow> None
               | Some c \<Rightarrow> if now - ts c < TTL then Some c else None) of
           Some c \<Rightarrow>
             (\<lparr>status = 200,
               headers = cors_headers @ [(''Cache-Control'', ''public, max-age=3600'')],
               body = QuoteBody (payload c)\<rparr>, fredCache, w)
         | None \<Rightarrow>
             (case fetchFredLatest rt penv fetch w of
                (data, w1) \<Rightarrow>
                  (let p = (case data of Some q \<Rightarrow> q | None \<Rightarrow> fallback_quote rt) in
                   (\<lparr>status = 200,
                     headers = cors_headers @ [(''Cache-Control'', ''public, max-age=3600'')],
                     body = QuoteBody p\<rparr>,
                    Some \<lparr>ts = now, payload = p\<rparr>, w1)))))"

section \<open>The subscription: create, update and \<^verbatim>\<open>handleSubscribe\<close>\<close>

text \<open>
  \<^verbatim>\<open>parseJsonBody\<close>: the chunks of the request are concatenated, an empty body is read
  as \<^verbatim>\<open>'{}'\<close>, and a text that \<^verbatim>\<open>JSON.parse\<close> rejects gives the empty object.
\<close>

definition parseJsonBody :: "'n js_runtime \<Rightarrow> string list \<Rightarrow> 'n json" where
  "parseJsonBody rt chunks =
     (let body = concat chunks in
      case JSON_parse rt (if body = [] then ''{}'' else body) of
        Inl e \<Rightarrow> JObj []
      | Inr v \<Rightarrow> v)"

text \<open>\<^verbatim>\<open>a || b\<close> on values that may be \<^verbatim>\<open>undefined\<close>.\<close>

definition js_or :: "'n js_runtime \<Rightarrow> 'n json option \<Rightarrow> 'n json option \<Rightarrow> 'n json option" where
  "js_or rt a b = (if truthy_opt rt a then a else b)"

text \<open>
  \<^verbatim>\<open>x.includes(arg)\<close>: substring search on a string, membership on an array, and a
  TypeError on any other value, which has no callable \<^verbatim>\<open>includes\<close>.
\<close>

fun js_includes :: "'n js_runtime \<Rightarrow> 'n json \<Rightarrow> 'n json \<Rightarrow> js_error + bool" where
  "js_includes rt (JStr s) arg =
     (case ToString rt arg of Inl e \<Rightarrow> Inl e | Inr p \<Rightarrow> Inr (str_includes s p))"
| "js_includes rt (JArr xs) arg = Inr (list_ex (\<lambda>x. same_value_zero rt x arg) xs)"
| "js_includes rt v arg = Inl (TypeError ''includes is not a function'')"

text \<open>
  The message of the error thrown on a response that is not ok:
  \<^verbatim>\<open>try { const e = JSON.parse(text); msg = e.detail || e.code || text; } catch { msg = text; }\<close>.
  Reading \<^verbatim>\<open>e.detail\<close> of \<^verbatim>\<open>null\<close> throws inside the \<^verbatim>\<open>try\<close>.
\<close>

definition failure_msg :: "'n js_runtime \<Rightarrow> string \<Rightarrow> 'n json option" where
  "failure_msg rt txt =
     (case JSON_parse rt txt of
        Inl x \<Rightarrow> Some (JStr txt)
      | Inr e \<Rightarrow>
          if e = JNull then Some (JStr txt)
          else js_or rt (js_or rt (get_prop e ''detail'') (get_prop e ''code'')) (Some (JStr txt)))"

text \<open>\<^verbatim>\<open>new Error(msg)\<close>: the message is \<^verbatim>\<open>ToString(msg)\<close>, empty for \<^verbatim>\<open>undefined\<close>.\<close>

definition new_Error :: "'n js_runtime \<Rightarrow> 'n json option \<Rightarrow> js_error" where
  "new_Error rt msg =
     (case msg of
        None \<Rightarrow> Error []
      | Some m \<Rightarrow> (case ToString rt m of Inl e \<Rightarrow> e | Inr s \<Rightarrow> Error s))"

definition create_body ::
  "'n js_runtime \<Rightarrow> string \<Rightarrow> 'n json \<Rightarrow> 'n json \<Rightarrow> 'n json \<Rightarrow> 'n json \<Rightarrow> 'n json" where
  "create_body rt now email tag name deadline =
     JObj [(''email_address'', email),
           (''tags'', JArr [tag]),
           (''metadata'',
              JObj ([(''settlementName'', name), (''subscribedAt'', JStr now)]
                    @ (if truthy rt deadline then [(''deadline'', deadline)] else [])))]"

definition create_request :: "string \<Rightarrow> 'n json \<Rightarrow> 'n request" where
  "create_request key b =
     Request ''POST'' ''https://api.buttondown.email/v1/subscribers'' []
       (Some (''Token '' @ key)) (Some b)"

text \<open>
  \<^verbatim>\<open>subscribeToButtondown\<close>; \<open>now\<close> is \<^verbatim>\<open>new Date().toISOString()\<close>. A thrown
  error is \<open>Inl\<close>.
\<close>

definition subscribeToButtondown ::
  "'n js_runtime \<Rightarrow> process_env \<Rightarrow> ('u, 'n) fetch_fn \<Rightarrow> string
   \<Rightarrow> 'n json \<Rightarrow> 'n json \<Rightarrow> 'n json \<Rightarrow> 'n json \<Rightarrow> ('u, 'n) world
   \<Rightarrow> (js_error + 'n json) \<times> ('u, 'n) world" where
  "subscribeToButtondown rt penv fetch now email tag name deadline w =
     (case BUTTONDOWN_API_KEY penv of
        None \<Rightarrow> (Inl (Error ''BUTTONDOWN_API_KEY not set''), w)
      | Some key \<Rightarrow>
          if key = [] then (Inl (Error ''BUTTONDOWN_API_KEY not set''), w)
          else
            (case do_fetch fetch
                    (create_request key (create_body rt now email tag name deadline)) w of
               (Rejects e, w1) \<Rightarrow> (Inl e, w1)
             | (Resp ok txt js, w1) \<Rightarrow>
                 if \<not> ok then
                   (case txt of
                      Inl e \<Rightarrow> (Inl e, w1)
                    | Inr t \<Rightarrow> (Inl (new_Error rt (failure_msg rt t)), w1))
                 else (js, w1)))"

text \<open>
  \<^verbatim>\<open>!data.results || !data.results.length\<close> and \<^verbatim>\<open>data.results[0]\<close> on whatever
  the search answered: an array, a string (whose first element is its first character),
  or an object with own properties \<^verbatim>\<open>length\<close> and \<^verbatim>\<open>0\<close>.
\<close>

fun length_truthy :: "'n js_runtime \<Rightarrow> 'n json \<Rightarrow> bool" where
  "length_truthy rt (JArr xs) = (xs \<noteq> [])"
| "length_truthy rt (JStr s) = (s \<noteq> [])"
| "length_truthy rt (JObj kvs) = truthy_opt rt (map_of kvs ''length'')"
| "length_truthy rt v = False"

fun index0 :: "'n json \<Rightarrow> 'n json option" where
  "index0 (JArr xs) = (case xs of [] \<Rightarrow> None | x # rest \<Rightarrow> Some x)"
| "index0 (JStr s) = (case s of [] \<Rightarrow> None | c # rest \<Rightarrow> Some (JStr [c]))"
| "index0 (JObj kvs) = map_of kvs ''0''"
| "index0 v = None"

text \<open>
  \<^verbatim>\<open>(sub.tags || []).includes(tag) ? sub.tags : [...(sub.tags || []), tag]\<close>.
  Spreading a string gives its characters.
\<close>

definition updatedTags :: "'n js_runtime \<Rightarrow> 'n json \<Rightarrow> 'n json \<Rightarrow> js_error + 'n json" where
  "updatedTags rt sub tag =
     (case js_or rt (get_prop sub ''tags'') (Some (JArr [])) of
        None \<Rightarrow> Inl (TypeError ''Cannot read properties of undefined'')
      | Some t \<Rightarrow>
          (case js_includes rt t tag of
             Inl e \<Rightarrow> Inl e
           | Inr True \<Rightarrow> Inr t
           | Inr False \<Rightarrow>
               (case t of
                  JArr xs \<Rightarrow> Inr (JArr (xs @ [tag]))
                | JStr s \<Rightarrow> Inr (JArr (map (\<lambda>c. JStr [c]) s @ [tag]))
                | _ \<Rightarrow> Inl (TypeError ''not iterable''))))"

text \<open>
  \<^verbatim>\<open>meta[settlementKey] = v\<close>. On an object the own property is replaced where it stands
  or appended. On an array the named property is set but is not part of what
  \<^verbatim>\<open>JSON.stringify\<close> writes. On a string, number or boolean the assignment throws, the
  file being an ES module and so strict.
\<close>

fun set_prop :: "'n json \<Rightarrow> string \<Rightarrow> 'n json \<Rightarrow> js_error + 'n json" where
  "set_prop (JObj kvs) k v = Inr (JObj (AList.update k v kvs))"
| "set_prop (JArr xs) k v = Inr (JArr xs)"
| "set_prop x k v = Inl (TypeError ''Cannot create property'')"

definition settlement_record :: "'n json \<Rightarrow> 'n json \<Rightarrow> string \<Rightarrow> 'n json" where
  "settlement_record name deadline now =
     JObj [(''name'', name), (''deadline'', deadline), (''subscribedAt'', JStr now)]"

text \<open>
  Lines 90 to 93 of \<^verbatim>\<open>updateButtondownSubscriber\<close>: the tags and the metadata sent
  back for the subscriber \<open>sub\<close>.
\<close>

definition meta :: "'n js_runtime \<Rightarrow> 'n json \<Rightarrow> 'n json \<Rightarrow> 'n json \<Rightarrow> 'n json \<Rightarrow> string
   \<Rightarrow> js_error + 'n json" where
  "meta rt sub tag name deadline now =
     (case js_or rt (get_prop sub ''metadata'') (Some (JObj [])) of
        None \<Rightarrow> Inl (TypeError ''Cannot set properties of undefined'')
      | Some m \<Rightarrow>
          (case ToString rt tag of
             Inl e \<Rightarrow> Inl e
           | Inr tg \<Rightarrow>
               set_prop m (''settlement_'' @ tg)
                 (JStr (JSON_stringify rt (settlement_record name deadline now)))))"

definition search_request :: "string \<Rightarrow> string \<Rightarrow> 'n request" where
  "search_request key enc =
     Request ''GET'' (''https://api.buttondown.email/v1/subscribers?email='' @ enc) []
       (Some (''Token '' @ key)) None"

definition patch_request :: "string \<Rightarrow> string \<Rightarrow> 'n json \<Rightarrow> 'n json \<Rightarrow> 'n request" where
  "patch_request key sid tags m =
     Request ''PATCH'' (''https://api.buttondown.email/v1/subscribers/'' @ sid) []
       (Some (''Token '' @ key)) (Some (JObj [(''tags'', tags), (''metadata'', m)]))"

text \<open>
  The part of \<^verbatim>\<open>updateButtondownSubscriber\<close> after the search has answered with
  \<open>data\<close>: the subscriber is picked, merged and patched.
\<close>

definition patch_found ::
  "'n js_runtime \<Rightarrow> ('u, 'n) fetch_fn \<Rightarrow> string \<Rightarrow> string
   \<Rightarrow> 'n json \<Rightarrow> 'n json \<Rightarrow> 'n json \<Rightarrow> 'n json \<Rightarrow> ('u, 'n) world
   \<Rightarrow> (js_error + 'n json) \<times> ('u, 'n) world" where
  "patch_found rt fetch now key data tag name deadline w1 =
     (if data = JNull then (Inl (TypeError ''Cannot read properties of null''), w1)
      else
        (case get_prop data ''results'' of
           None \<Rightarrow> (Inl (Error ''Subscriber not found''), w1)
         | Some results \<Rightarrow>
             if truthy rt results \<and> length_truthy rt results then
               (case index0 results of
                  None \<Rightarrow> (Inl (TypeError ''Cannot read properties of undefined''), w1)
                | Some sub \<Rightarrow>
                    if sub = JNull then (Inl (TypeError ''Cannot read properties of null''), w1)
                    else
                      (case updatedTags rt sub tag of
                         Inl e \<Rightarrow> (Inl e, w1)
                       | Inr tags \<Rightarrow>
                           (case meta rt sub tag name deadline now of
                              Inl e \<Rightarrow> (Inl e, w1)
                            | Inr m \<Rightarrow>
                                (case ToString_opt rt (get_prop sub ''id'') of
                                   Inl e \<Rightarrow> (Inl e, w1)
                                 | Inr sid \<Rightarrow>
                                     (case do_fetch fetch (patch_request key sid tags m) w1 of
                                        (Rejects e, w2) \<Rightarrow> (Inl e, w2)
                                      | (Resp ok txt js, w2) \<Rightarrow>
                                          if \<not> ok then
                                            (case txt of
                                               Inl e \<Rightarrow> (Inl e, w2)
                                             | Inr t \<Rightarrow> (Inl (Error t), w2))
                                          else (js, w2))))))
             else (Inl (Error ''Subscriber not found''), w1)))"

definition updateButtondownSubscriber ::
  "'n js_runtime \<Rightarrow> process_env \<Rightarrow> ('u, 'n) fetch_fn \<Rightarrow> string
   \<Rightarrow> 'n json \<Rightarrow> 'n json \<Rightarrow> 'n json \<Rightarrow> 'n json \<Rightarrow> ('u, 'n) world
   \<Rightarrow> (js_error + 'n json) \<times> ('u, 'n) world" where
  "updateButtondownSubscriber rt penv fetch now email tag name deadline w =
     (case BUTTONDOWN_API_KEY penv of
        None \<Rightarrow> (Inl (Error ''BUTTONDOWN_API_KEY not set''), w)
      | Some key \<Rightarrow>
          if key = [] then (Inl (Error ''BUTTONDOWN_API_KEY not set''), w)
          else
            (case ToString rt email of
               Inl e \<Rightarrow> (Inl e, w)
             | Inr es \<Rightarrow>
                 (case encodeURIComponent rt es of
                    Inl e \<Rightarrow> (Inl e, w)
                  | Inr enc \<Rightarrow>
                      (case do_fetch fetch (search_request key enc) w of
                         (Rejects e, w1) \<Rightarrow> (Inl e, w1)
                       | (Resp ok txt js, w1) \<Rightarrow>
                           if \<not> ok then (Inl (Error ''Failed to find subscriber''), w1)
                           else
                             (case js of
                                Inl e \<Rightarrow> (Inl e, w1)
                              | Inr data \<Rightarrow>
                                  patch_found rt fetch now key data tag name deadline w1)))))"

definition bad_request :: "string \<Rightarrow> 'n reply" where
  "bad_request m = \<lparr>status = 400, headers = cors_headers, body = ErrorBody m\<rparr>"

definition success :: "string \<Rightarrow> 'n reply" where
  "success m = \<lparr>status = 200, headers = cors_headers, body = SuccessBody m\<rparr>"

text \<open>
  The outer \<^verbatim>\<open>catch\<close>: status 500 with
  \<^verbatim>\<open>{ error: e.message || 'Failed to subscribe. Please try again.' }\<close>.
\<close>

definition server_error :: "js_error \<Rightarrow> 'n reply" where
  "server_error e =
     \<lparr>status = 500, headers = cors_headers,
      body = ErrorBody (if message e = [] then ''Failed to subscribe. Please try again.''
                        else message e)\<rparr>"

definition created_message :: string where
  "created_message =
     ''Successfully subscribed! You'' @ [CHR 0x27]
     @ ''ll receive a reminder before the deadline.''"

text \<open>
  The body of the outer \<^verbatim>\<open>try\<close> of \<^verbatim>\<open>handleSubscribe\<close>: \<open>Inl\<close> is an error on its
  way to the outer \<^verbatim>\<open>catch\<close>. \<open>now1\<close> and \<open>now2\<close> are the clock readings of the create
  and of the update.
\<close>

definition subscribe_try ::
  "'n js_runtime \<Rightarrow> process_env \<Rightarrow> ('u, 'n) fetch_fn \<Rightarrow> string \<Rightarrow> string
   \<Rightarrow> string list \<Rightarrow> ('u, 'n) world \<Rightarrow> (js_error + 'n reply) \<times> ('u, 'n) world" where
  "subscribe_try rt penv fetch now1 now2 chunks w =
     (let parsed = parseJsonBody rt chunks in
      if parsed = JNull then (Inl (TypeError ''Cannot destructure property of null''), w)
      else
        (case get_prop parsed ''email'' of
           None \<Rightarrow> (Inr (bad_request ''Invalid email address''), w)
         | Some email \<Rightarrow>
             if \<not> truthy rt email then (Inr (bad_request ''Invalid email address''), w)
             else
               (case js_includes rt email (JStr ''@'') of
                  Inl e \<Rightarrow> (Inl e, w)
                | Inr False \<Rightarrow> (Inr (bad_request ''Invalid email address''), w)
                | Inr True \<Rightarrow>
                    (case (get_prop parsed ''settlementId'', get_prop parsed ''settlementName'') of
                       (Some settlementId, Some settlementName) \<Rightarrow>
                         if truthy rt settlementId \<and> truthy rt settlementName then
                           (let deadline =
                                  (case js_or rt (get_prop parsed ''deadline'') (Some JNull) of
                                     None \<Rightarrow> JNull
                                   | Some d \<Rightarrow> d) in
                            case subscribeToButtondown rt penv fetch now1
                                   email settlementId settlementName deadline w of
                              (Inr r, w1) \<Rightarrow> (Inr (success created_message), w1)
                            | (Inl e, w1) \<Rightarrow>
                                if str_includes (message e) ''already subscribed'' then
                                  (case updateButtondownSubscriber rt penv fetch now2
                                          email settlementId settlementName deadline w1 of
                                     (Inr r, w2) \<Rightarrow>
                                       (Inr (success ''Settlement added to your subscriptions!''), w2)
                                   | (Inl e2, w2) \<Rightarrow> (Inl e2, w2))
                                else (Inl e, w1))
                         else (Inr (bad_request ''Missing required fields''), w)
                     | _ \<Rightarrow> (Inr (bad_request ''Missing required fields''), w)))))"

definition handleSubscribe ::
  "'n js_runtime \<Rightarrow> process_env \<Rightarrow> ('u, 'n) fetch_fn \<Rightarrow> string \<Rightarrow> string
   \<Rightarrow> string \<Rightarrow> string list \<Rightarrow> ('u, 'n) world \<Rightarrow> 'n reply \<times> ('u, 'n) world" where
  "handleSubscribe rt penv fetch now1 now2 method chunks w =
     (if method = ''OPTIONS'' then
        (\<lparr>status = 204, headers = cors_headers, body = NoBody\<rparr>, w)
      else if method \<noteq> ''POST'' then
        (\<lparr>status = 405, headers = cors_headers, body = ErrorBody ''Method not allowed''\<rparr>, w)
      else
        (case subscribe_try rt penv fetch now1 now2 chunks w of
           (Inr r, w1) \<Rightarrow> (r, w1)
         | (Inl e, w1) \<Rightarrow> (server_error e, w1)))"

section \<open>The mailing-list service and a test runtime\<close>

text \<open>
  Modelled from the spec: the mailing-list service is not part of the repository. Section 6
  of the specification gives its three operations: create subscriber (email, tags,
  metadata), search subscriber by email, answering \<^verbatim>\<open>{results: [subscriber]}\<close>, and
  patch subscriber (id, tags, metadata). The model keeps the subscribers in a list, refuses
  to create a second subscriber for an email with a message that says the address is
  already subscribed, and stores what a patch sends.
\<close>

record 'n subscriber =
  sub_id :: string
  sub_email :: string
  sub_tags :: "'n json"
  sub_metadata :: "'n json"

definition subscriber_json :: "'n subscriber \<Rightarrow> 'n json" where
  "subscriber_json s =
     JObj [(''id'', JStr (sub_id s)), (''email_address'', JStr (sub_email s)),
           (''tags'', sub_tags s), (''metadata'', sub_metadata s)]"

definition already_subscribed :: "'n json" where
  "already_subscribed =
     JObj [(''code'', JStr ''email_already_exists''),
           (''detail'', JStr ''That email address is already subscribed.'')]"

definition answer :: "'n js_runtime \<Rightarrow> bool \<Rightarrow> 'n json \<Rightarrow> 'n fetch_result" where
  "answer rt ok v = Resp ok (Inr (JSON_stringify rt v)) (Inr v)"

definition field_or :: "'n json \<Rightarrow> string \<Rightarrow> 'n json \<Rightarrow> 'n json" where
  "field_or b k d = (case get_prop b k of None \<Rightarrow> d | Some v \<Rightarrow> v)"

definition patch_subscriber :: "'n json \<Rightarrow> 'n subscriber \<Rightarrow> 'n subscriber" where
  "patch_subscriber b s =
     s\<lparr>sub_tags := field_or b ''tags'' (sub_tags s),
       sub_metadata := field_or b ''metadata'' (sub_metadata s)\<rparr>"

definition search_matches :: "'n js_runtime \<Rightarrow> string \<Rightarrow> 'n subscriber \<Rightarrow> bool" where
  "search_matches rt u s =
     (case encodeURIComponent rt (sub_email s) of
        Inl e \<Rightarrow> False
      | Inr enc \<Rightarrow> u = ''https://api.buttondown.email/v1/subscribers?email='' @ enc)"

definition patch_matches :: "string \<Rightarrow> 'n subscriber \<Rightarrow> bool" where
  "patch_matches u s = (u = ''https://api.buttondown.email/v1/subscribers/'' @ sub_id s)"

fun mailing_list :: "'n js_runtime \<Rightarrow> ('n subscriber list, 'n) fetch_fn" where
  "mailing_list rt subs (Request m u q a b) =
     (if m = ''POST'' then
        (case b of
           None \<Rightarrow> (answer rt False (JObj [(''detail'', JStr ''Bad request'')]), subs)
         | Some bd \<Rightarrow>
             (case get_prop bd ''email_address'' of
                Some (JStr e) \<Rightarrow>
                  if list_ex (\<lambda>s. sub_email s = e) subs then
                    (answer rt False already_subscribed, subs)
                  else
                    (let s = \<lparr>sub_id = ''sub-'' @ e, sub_email = e,
                              sub_tags = field_or bd ''tags'' (JArr []),
                              sub_metadata = field_or bd ''metadata'' (JObj [])\<rparr>
                     in (answer rt True (subscriber_json s), subs @ [s]))
              | _ \<Rightarrow> (answer rt False (JObj [(''detail'', JStr ''Bad request'')]), subs)))
      else if m = ''GET'' then
        (answer rt True
           (JObj [(''results'', JArr (map subscriber_json (filter (search_matches rt u) subs)))]),
         subs)
      else if m = ''PATCH'' then
        (case (b, find (patch_matches u) subs) of
           (Some bd, Some s) \<Rightarrow>
             (answer rt True (subscriber_json (patch_subscriber bd s)),
              map (\<lambda>x. if patch_matches u x then patch_subscriber bd x else x) subs)
         | _ \<Rightarrow> (answer rt False (JObj [(''detail'', JStr ''Not found'')]), subs))
      else (answer rt False (JObj [(''detail'', JStr ''Method not allowed'')]), subs))"

text \<open>
  A small runtime on which the model is evaluated at concrete inputs. Numbers are
  rationals, \<open>None\<close> standing for \<^verbatim>\<open>NaN\<close>; \<^verbatim>\<open>parseFloat\<close> reads an unsigned decimal
  numeral at the front of the string; \<^verbatim>\<open>JSON.stringify\<close> writes a tree without
  spaces; \<^verbatim>\<open>JSON.parse\<close> recognises the texts of the trees in a given list and
  rejects every other text; \<^verbatim>\<open>encodeURIComponent\<close> keeps the unreserved characters and
  writes every other byte as a percent sign and two hexadecimal digits.
\<close>

definition digit_char :: "nat \<Rightarrow> char" where
  "digit_char d = ''0123456789ABCDEF'' ! (d mod 16)"

fun show_nat_fuel :: "nat \<Rightarrow> nat \<Rightarrow> string" where
  "show_nat_fuel 0 n = []"
| "show_nat_fuel (Suc f) n =
     (if n < 10 then [digit_char n] else show_nat_fuel f (n div 10) @ [digit_char (n mod 10)])"

definition show_nat :: "nat \<Rightarrow> string" where
  "show_nat n = show_nat_fuel (Suc n) n"

definition show_int :: "int \<Rightarrow> string" where
  "show_int i = (if i < 0 then ''-'' @ show_nat (nat (- i)) else show_nat (nat i))"

fun show_frac :: "nat \<Rightarrow> rat \<Rightarrow> string" where
  "show_frac 0 q = []"
| "show_frac (Suc f) q =
     (if q = 0 then []
      else digit_char (nat \<lfloor>q * 10\<rfloor>) # show_frac f (q * 10 - of_int \<lfloor>q * 10\<rfloor>))"

definition test_num_to_string :: "rat option \<Rightarrow> string" where
  "test_num_to_string n =
     (case n of
        None \<Rightarrow> ''NaN''
      | Some q \<Rightarrow>
          (let a = \<bar>q\<bar>; whole = \<lfloor>a\<rfloor>; rest = a - of_int whole in
           (if q < 0 then ''-'' else []) @ show_nat (nat whole)
           @ (if rest = 0 then [] else ''.'' @ show_frac 17 rest)))"

definition is_digit :: "char \<Rightarrow> bool" where
  "is_digit c = (c \<in> set ''0123456789'')"

definition digit_val :: "char \<Rightarrow> nat" where
  "digit_val c = of_char c - 48"

definition digits_val :: "string \<Rightarrow> nat" where
  "digits_val ds = foldl (\<lambda>acc c. acc * 10 + digit_val c) 0 ds"

definition test_parseFloat_str :: "string \<Rightarrow> rat option" where
  "test_parseFloat_str s =
     (let whole = takeWhile is_digit s; rest = dropWhile is_digit s in
      if whole = [] then None
      else
        (case rest of
           c # after \<Rightarrow>
             if c = CHR ''.'' \<and> takeWhile is_digit after \<noteq> [] then
               (let fr = takeWhile is_digit after in
                Some (of_nat (digits_val whole) + of_nat (digits_val fr) / 10 ^ length fr))
             else Some (of_nat (digits_val whole))
         | [] \<Rightarrow> Some (of_nat (digits_val whole))))"

definition lift2 :: "(rat \<Rightarrow> rat \<Rightarrow> rat) \<Rightarrow> rat option \<Rightarrow> rat option \<Rightarrow> rat option" where
  "lift2 f a b = (case (a, b) of (Some x, Some y) \<Rightarrow> Some (f x y) | _ \<Rightarrow> None)"

definition quote_string :: "string \<Rightarrow> string" where
  "quote_string s =
     [CHR 0x22]
     @ concat (map (\<lambda>c. if c = CHR 0x22 \<or> c = CHR 0x5C then [CHR 0x5C, c] else [c]) s)
     @ [CHR 0x22]"

fun test_stringify :: "rat option json \<Rightarrow> string" where
  "test_stringify JNull = ''null''"
| "test_stringify (JBool b) = (if b then ''true'' else ''false'')"
| "test_stringify (JNum n) = (if n = None then ''null'' else test_num_to_string n)"
| "test_stringify (JStr s) = quote_string s"
| "test_stringify (JArr xs) = ''['' @ join_commas (map test_stringify xs) @ '']''"
| "test_stringify (JObj kvs) =
     ''{'' @ join_commas (map (\<lambda>kv. quote_string (fst kv) @ '':'' @ test_stringify (snd kv)) kvs)
     @ ''}''"

definition unreserved :: "char \<Rightarrow> bool" where
  "unreserved c =
     (c \<in> set ''ABCDEFGHIJKLMNOPQRSTUVWXYZabcdefghijklmnopqrstuvwxyz0123456789-_.!~*()''
      \<or> c = CHR 0x27)"

definition percent_encode :: "char \<Rightarrow> string" where
  "percent_encode c =
     (if unreserved c then [c]
      else [CHR ''%'', digit_char (of_char c div 16), digit_char (of_char c mod 16)])"

definition test_runtime :: "rat option json list \<Rightarrow> rat option js_runtime" where
  "test_runtime documents =
     \<lparr>num_truthy = (\<lambda>n. case n of None \<Rightarrow> False | Some q \<Rightarrow> q \<noteq> 0),
      num_same = (\<lambda>a b. a = b),
      num_to_string = test_num_to_string,
      parseFloat_str = test_parseFloat_str,
      isFinite = (\<lambda>n. case n of None \<Rightarrow> False | Some q \<Rightarrow> True),
      num_add = lift2 (\<lambda>x y. x + y),
      num_mul = lift2 (\<lambda>x y. x * y),
      num_div = (\<lambda>a b. if b = Some 0 then None else lift2 (\<lambda>x y. x / y) a b),
      Math_round = map_option (\<lambda>x. of_int \<lfloor>x + 1 / 2\<rfloor>),
      lit_0_5 = Some (1 / 2),
      lit_10 = Some 10,
      lit_5_5 = Some (11 / 2),
      JSON_parse =
        (\<lambda>s. case find (\<lambda>v. test_stringify v = s) documents of
                None \<Rightarrow> Inl (SyntaxError ''Unexpected token'')
              | Some v \<Rightarrow> Inr v),
      JSON_stringify = test_stringify,
      encodeURIComponent = (\<lambda>s. Inr (concat (map percent_encode s)))\<rparr>"

text \<open>
  Test inputs: an upstream that gives the same answer to every request, an environment
  with both credentials, a series answer whose newest observation carries the
  missing-value mark, and the empty world.
\<close>

definition answers :: "'n fetch_result \<Rightarrow> (unit, 'n) fetch_fn" where
  "answers res u r = (res, u)"

definition test_env :: process_env where
  "test_env =
     \<lparr>FRED_API_KEY = Some ''fred-key'', FRED_SERIES_ID = None,
      BUTTONDOWN_API_KEY = Some ''secret''\<rparr>"

definition fred_sample :: "rat option json" where
  "fred_sample =
     JObj [(''observations'',
            JArr [JObj [(''date'', JStr ''2025-01-09''), (''value'', JStr ''.'')],
                  JObj [(''date'', JStr ''2025-01-02''), (''value'', JStr ''6.35'')]])]"

definition fred_answer :: "rat option json \<Rightarrow> rat option fetch_result" where
  "fred_answer v = Resp True (Inr (test_stringify v)) (Inr v)"

definition idle :: "(unit, rat option) world" where
  "idle = \<lparr>upstream = (), calls = []\<rparr>"

text \<open>
  Three subscribe requests (one with an email that has no \<^verbatim>\<open>@\<close>), the runtime that
  parses them, the mailing list with no subscriber, and an upstream in an inconsistent
  state: it refuses every create as already subscribed and finds nobody.
\<close>

definition request_A :: "rat option json" where
  "request_A =
     JObj [(''email'', JStr ''user@x.com''), (''settlementId'', JStr ''tagA''),
           (''settlementName'', JStr ''Name'')]"

definition request_B :: "rat option json" where
  "request_B =
     JObj [(''email'', JStr ''user@x.com''), (''settlementId'', JStr ''tagB''),
           (''settlementName'', JStr ''Other'')]"

definition request_no_at :: "rat option json" where
  "request_no_at =
     JObj [(''email'', JStr ''user.x.com''), (''settlementId'', JStr ''tagA''),
           (''settlementName'', JStr ''Name'')]"

definition engine :: "rat option js_runtime" where
  "engine = test_runtime [JObj [], request_A, request_B, request_no_at, already_subscribed]"

definition nobody :: "(rat option subscriber list, rat option) world" where
  "nobody = \<lparr>upstream = [], calls = []\<rparr>"

fun inconsistent :: "(unit, rat option) fetch_fn" where
  "inconsistent u (Request m url q a b) =
     (if m = ''POST'' then (answer engine False already_subscribed, u)
      else (answer engine True (JObj [(''results'', JArr [])]), u))"

text \<open>
  The subscriber the mailing list holds once \<open>request_A\<close> has been served at time
  \<^verbatim>\<open>T1\<close>, and the method and address of a request, for reading a list of calls.
\<close>

definition subscribed_A :: "rat option subscriber" where
  "subscribed_A =
     \<lparr>sub_id = ''sub-user@x.com'', sub_email = ''user@x.com'',
      sub_tags = JArr [JStr ''tagA''],
      sub_metadata = JObj [(''settlementName'', JStr ''Name''), (''subscribedAt'', JStr ''T1'')]\<rparr>"

fun request_line :: "'n request \<Rightarrow> string \<times> string" where
  "request_line (Request m url q a b) = (m, url)"

text \<open>
  An environment that names another series, and a subscribe request whose email is the
  number 5, with the runtime that parses it.
\<close>

definition configured_env :: process_env where
  "configured_env =
     \<lparr>FRED_API_KEY = Some ''fred-key'', FRED_SERIES_ID = Some ''MORTGAGE15US'',
      BUTTONDOWN_API_KEY = Some ''secret''\<rparr>"

definition request_number_email :: "rat option json" where
  "request_number_email =
     JObj [(''email'', JNum (Some 5)), (''settlementId'', JStr ''tagA''),
           (''settlementName'', JStr ''Name'')]"

section \<open>Properties\<close>

lemma str_includes_sublist: "str_includes s p \<longleftrightarrow> sublist p s"
  by (induction s) (auto simp: sublist_Cons_right)

lemma parse_A: "parseJsonBody engine [test_stringify request_A] = request_A"
  by (simp add: parseJsonBody_def engine_def test_runtime_def request_A_def request_B_def
        request_no_at_def already_subscribed_def quote_string_def)

lemma parse_B: "parseJsonBody engine [test_stringify request_B] = request_B"
  by (simp add: parseJsonBody_def engine_def test_runtime_def request_A_def request_B_def
        request_no_at_def already_subscribed_def quote_string_def)

lemma parse_no_at: "parseJsonBody engine [test_stringify request_no_at] = request_no_at"
  by (simp add: parseJsonBody_def engine_def test_runtime_def request_A_def request_B_def
        request_no_at_def already_subscribed_def quote_string_def)

lemma parse_refusal:
  "JSON_parse engine (test_stringify already_subscribed) = Inr already_subscribed"
  by (simp add: engine_def test_runtime_def request_A_def request_B_def
        request_no_at_def already_subscribed_def quote_string_def)

lemma encode_user: "encodeURIComponent engine ''user@x.com'' = Inr ''user%40x.com''"
  by (simp add: engine_def test_runtime_def percent_encode_def unreserved_def digit_char_def)

lemma engine_stringify: "JSON_stringify engine = test_stringify"
  by (simp add: engine_def test_runtime_def)

lemma refusal_message:
  "new_Error engine (failure_msg engine (test_stringify already_subscribed))
     = Error ''That email address is already subscribed.''"
  unfolding failure_msg_def parse_refusal
  by (simp add: new_Error_def js_or_def already_subscribed_def)

lemma refusal_matches:
  "str_includes ''That email address is already subscribed.'' ''already subscribed''"
  by simp

lemma refused:
  "subscribeToButtondown engine test_env inconsistent now email tag name dl
     \<lparr>upstream = (), calls = cs\<rparr> =
     (Inl (Error ''That email address is already subscribed.''),
      \<lparr>upstream = (),
       calls = cs @ [create_request ''secret'' (create_body engine now email tag name dl)]\<rparr>)"
  by (simp add: subscribeToButtondown_def test_env_def do_fetch_def create_request_def
        answer_def engine_stringify refusal_message)

lemma find_first:
  "list_all (\<lambda>x. \<not> P x) pre \<Longrightarrow> P x \<Longrightarrow> find P (pre @ x # post) = Some x"
  by (induction pre) auto

lemma find_none: "list_all (\<lambda>x. \<not> P x) xs \<Longrightarrow> find P xs = None"
  by (induction xs) auto

lemma handleRate_miss:
  "(case fredCache of None \<Rightarrow> True | Some e \<Rightarrow> TTL \<le> now - ts e) \<Longrightarrow>
   handleRate rt penv fetch now ''GET'' fredCache w =
     (case fetchFredLatest rt penv fetch w of
        (data, w1) \<Rightarrow>
          (\<lparr>status = 200,
            headers = cors_headers @ [(''Cache-Control'', ''public, max-age=3600'')],
            body = QuoteBody (case data of Some q \<Rightarrow> q | None \<Rightarrow> fallback_quote rt)\<rparr>,
           Some \<lparr>ts = now, payload = (case data of Some q \<Rightarrow> q | None \<Rightarrow> fallback_quote rt)\<rparr>, w1))"
  by (auto simp: handleRate_def Let_def split: option.splits prod.splits)

lemma handleRate_GET_total:
  "\<exists>q. fst (handleRate rt penv fetch now ''GET'' fredCache w) =
     \<lparr>status = 200,
      headers = cors_headers @ [(''Cache-Control'', ''public, max-age=3600'')],
      body = QuoteBody q\<rparr>"
  by (auto simp: handleRate_def Let_def split: option.splits prod.splits)

lemma sentinel_not_valid:
  "get_prop x ''value'' = None \<or> get_prop x ''value'' = Some (JStr ''.'') \<Longrightarrow> \<not> obs_valid rt x"
  by (auto simp: obs_valid_def)

lemma fetchFredLatest_with_key:
  assumes "FRED_API_KEY penv = Some key" "key \<noteq> []"
    and "fetch (upstream w) (fred_request (seriesId_of penv) key) = (res, u')"
  shows "fetchFredLatest rt penv fetch w =
     ((case res of
         Rejects e \<Rightarrow> None
       | Resp ok bt js \<Rightarrow>
           if \<not> ok then None
           else
             (case js of
                Inl e \<Rightarrow> None
              | Inr data \<Rightarrow>
                  (case find (obs_valid rt) (observations_of rt data) of
                     None \<Rightarrow> None
                   | Some firstValid \<Rightarrow>
                       (case parseFloat rt (get_prop firstValid ''value'') of
                          Inl e \<Rightarrow> None
                        | Inr raw \<Rightarrow>
                            if \<not> isFinite rt raw then None
                            else Some \<lparr>ratePercent =
                                         num_div rt
                                           (Math_round rt
                                              (num_mul rt (num_add rt raw (lit_0_5 rt)) (lit_10 rt)))
                                           (lit_10 rt),
                                       rawPercent = Some raw,
                                       adjustedAdded = lit_0_5 rt,
                                       observationDate = get_prop firstValid ''date'',
                                       source = seriesId_of penv\<rparr>)))),
      \<lparr>upstream = u', calls = calls w @ [fred_request (seriesId_of penv) key]\<rparr>)"
  using assms
  by (simp add: fetchFredLatest_def do_fetch_def Let_def
           split: fetch_result.splits sum.splits option.splits)

lemma fetchFredLatest_no_key:
  "FRED_API_KEY penv = None \<or> FRED_API_KEY penv = Some [] \<Longrightarrow>
   fetchFredLatest rt penv fetch w = (None, w)"
  by (auto simp: fetchFredLatest_def Let_def)

text \<open>
  C3. When the cache is absent or expired, the credential is set and the series service
  answers with an observation list whose first entry with a present value other than
  \<^verbatim>\<open>'.'\<close> parses to a finite number \<open>r\<close>, \<^verbatim>\<open>handleRate\<close> answers 200 with the
  quote whose \<^verbatim>\<open>ratePercent\<close> is \<^verbatim>\<open>Math.round((r + 0.5) * 10) / 10\<close>, whose
  \<^verbatim>\<open>rawPercent\<close> is \<open>r\<close>, whose \<^verbatim>\<open>adjustedAdded\<close> is 0.5, whose
  \<^verbatim>\<open>observationDate\<close> is the date of that entry and whose \<^verbatim>\<open>source\<close> is the series
  identifier: the value of \<^verbatim>\<open>FRED_SERIES_ID\<close> when it is set and not empty, and
  \<^verbatim>\<open>MORTGAGE30US\<close> otherwise. The same quote is stored in the cache with the current
  time, and the one request issued asks for that series.
\<close>

theorem getQuote_formula:
  assumes key: "FRED_API_KEY penv = Some key" "key \<noteq> []"
    and sid: "sid = (case FRED_SERIES_ID penv of
                       None \<Rightarrow> ''MORTGAGE30US''
                     | Some s \<Rightarrow> if s = [] then ''MORTGAGE30US'' else s)"
    and miss: "fredCache = None \<or> (\<exists>c. fredCache = Some c \<and> 3600000 \<le> now - ts c)"
    and resp: "fetch (upstream w)
                 (Request ''GET'' ''https://api.stlouisfed.org/fred/series/observations''
                    [(''series_id'', sid), (''api_key'', key), (''file_type'', ''json''),
                     (''sort_order'', ''desc''), (''limit'', ''14'')] None None)
                 = (Resp True bt (Inr data), u')"
    and obs: "get_prop data ''observations'' = Some (JArr (pre @ x # post))"
    and pre: "list_all (\<lambda>y. \<not> truthy rt y \<or> \<not> truthy_opt rt (get_prop y ''value'')
                              \<or> get_prop y ''value'' = Some (JStr ''.'')) pre"
    and val: "get_prop x ''value'' = Some v" "truthy rt v" "v \<noteq> JStr ''.''"
    and num: "ToString rt v = Inr str" "parseFloat_str rt str = r" "isFinite rt r"
  shows "handleRate rt penv fetch now ''GET'' fredCache w =
     (let q = \<lparr>ratePercent =
                  num_div rt (Math_round rt (num_mul rt (num_add rt r (lit_0_5 rt)) (lit_10 rt)))
                    (lit_10 rt),
                rawPercent = Some r,
                adjustedAdded = lit_0_5 rt,
                observationDate = get_prop x ''date'',
                source = sid\<rparr>
      in (\<lparr>status = 200,
           headers = cors_headers @ [(''Cache-Control'', ''public, max-age=3600'')],
           body = QuoteBody q\<rparr>,
          Some \<lparr>ts = now, payload = q\<rparr>,
          \<lparr>upstream = u',
           calls = calls w @
             [Request ''GET'' ''https://api.stlouisfed.org/fred/series/observations''
                [(''series_id'', sid), (''api_key'', key), (''file_type'', ''json''),
                 (''sort_order'', ''desc''), (''limit'', ''14'')] None None]\<rparr>))"
proof -
  from miss have st: "(case fredCache of None \<Rightarrow> True | Some e \<Rightarrow> TTL \<le> now - ts e)"
    by (auto simp: TTL_def)
  have s: "seriesId_of penv = sid"
    by (simp add: seriesId_of_def sid)
  from resp have resp': "fetch (upstream w) (fred_request (seriesId_of penv) key)
                           = (Resp True bt (Inr data), u')"
    by (simp add: fred_request_def s)
  from obs have tr: "truthy rt data"
    by (cases data) simp_all
  with obs have oo: "observations_of rt data = pre @ x # post"
    by (simp add: observations_of_def)
  from val have "truthy rt x"
    by (cases x) simp_all
  with val have vx: "obs_valid rt x"
    by (simp add: obs_valid_def)
  from pre have "list_all (\<lambda>y. \<not> obs_valid rt y) pre"
    by (auto simp: list_all_iff obs_valid_def)
  with vx oo have f: "find (obs_valid rt) (observations_of rt data) = Some x"
    by (simp add: find_first)
  from num have pf: "parseFloat rt (Some v) = Inr r"
    by (simp add: parseFloat_def)
  show ?thesis
    by (simp add: handleRate_miss[OF st]
          fetchFredLatest_with_key[where fetch = fetch and w = w, OF key resp']
          f val pf num Let_def s fred_request_def)
qed

theorem getQuote_formula_witness:
  "handleRate (test_runtime []) configured_env (answers (fred_answer fred_sample)) 5 ''GET''
     None idle =
     (\<lparr>status = 200,
       headers = cors_headers @ [(''Cache-Control'', ''public, max-age=3600'')],
       body = QuoteBody \<lparr>ratePercent = Some (69 / 10), rawPercent = Some (Some (127 / 20)),
                          adjustedAdded = Some (1 / 2),
                          observationDate = Some (JStr ''2025-01-02''),
                          source = ''MORTGAGE15US''\<rparr>\<rparr>,
      Some \<lparr>ts = 5,
            payload = \<lparr>ratePercent = Some (69 / 10), rawPercent = Some (Some (127 / 20)),
                       adjustedAdded = Some (1 / 2),
                       observationDate = Some (JStr ''2025-01-02''),
                       source = ''MORTGAGE15US''\<rparr>\<rparr>,
      \<lparr>upstream = (),
       calls = [Request ''GET'' ''https://api.stlouisfed.org/fred/series/observations''
                  [(''series_id'', ''MORTGAGE15US''), (''api_key'', ''fred-key''),
                   (''file_type'', ''json''), (''sort_order'', ''desc''), (''limit'', ''14'')]
                  None None]\<rparr>)
   \<and> source (payload (the (fst (snd
         (handleRate (test_runtime []) test_env (answers (fred_answer fred_sample)) 5 ''GET''
            None idle))))) = ''MORTGAGE30US''"
proof -
  let ?rt = "test_runtime []"
  let ?x = "JObj [(''date'', JStr ''2025-01-02''), (''value'', JStr ''6.35'')]"
  let ?pre = "[JObj [(''date'', JStr ''2025-01-09''), (''value'', JStr ''.'')]]"
  have h1: "FRED_API_KEY configured_env = Some ''fred-key''" and h2: "''fred-key'' \<noteq> []"
    and g1: "FRED_API_KEY test_env = Some ''fred-key''"
    by (simp_all add: configured_env_def test_env_def)
  have hs: "''MORTGAGE15US'' = (case FRED_SERIES_ID configured_env of
                       None \<Rightarrow> ''MORTGAGE30US''
                     | Some s \<Rightarrow> if s = [] then ''MORTGAGE30US'' else s)"
    and gs: "''MORTGAGE30US'' = (case FRED_SERIES_ID test_env of
                       None \<Rightarrow> ''MORTGAGE30US''
                     | Some s \<Rightarrow> if s = [] then ''MORTGAGE30US'' else s)"
    by (simp_all add: configured_env_def test_env_def)
  have h3: "None = None
            \<or> (\<exists>c. None = Some c \<and> 3600000 \<le> 5 - ts (c :: rat option cache_entry))"
    by simp
  have h4: "answers (fred_answer fred_sample) (upstream idle) rq
            = (Resp True (Inr (test_stringify fred_sample)) (Inr fred_sample), ())" for rq
    by (simp add: answers_def fred_answer_def)
  have h5: "get_prop fred_sample ''observations'' = Some (JArr (?pre @ ?x # []))"
    by (simp add: fred_sample_def)
  have h6: "list_all (\<lambda>y. \<not> truthy ?rt y \<or> \<not> truthy_opt ?rt (get_prop y ''value'')
                              \<or> get_prop y ''value'' = Some (JStr ''.'')) ?pre"
    by simp
  have h7: "get_prop ?x ''value'' = Some (JStr ''6.35'')"
    and h8: "truthy ?rt (JStr ''6.35'')" and h9: "JStr ''6.35'' \<noteq> (JStr ''.'' :: rat option json)"
    and h10: "ToString ?rt (JStr ''6.35'') = Inr ''6.35''"
    by simp_all
  have p: "test_parseFloat_str ''6.35'' = Some (127 / 20)"
    by code_simp
  have h11: "parseFloat_str ?rt ''6.35'' = Some (127 / 20)"
    by (simp add: test_runtime_def p)
  have h12: "isFinite ?rt (Some (127 / 20))"
    by (simp add: test_runtime_def)
  note a = getQuote_formula[where fetch = "answers (fred_answer fred_sample)" and w = idle,
        OF h1 h2 hs h3 h4 h5 h6 h7 h8 h9 h10 h11 h12]
  note b = getQuote_formula[where fetch = "answers (fred_answer fred_sample)" and w = idle,
        OF g1 h2 gs h3 h4 h5 h6 h7 h8 h9 h10 h11 h12]
  have 1: "handleRate (test_runtime []) configured_env (answers (fred_answer fred_sample)) 5
             ''GET'' None idle =
     (\<lparr>status = 200,
       headers = cors_headers @ [(''Cache-Control'', ''public, max-age=3600'')],
       body = QuoteBody \<lparr>ratePercent = Some (69 / 10), rawPercent = Some (Some (127 / 20)),
                          adjustedAdded = Some (1 / 2),
                          observationDate = Some (JStr ''2025-01-02''),
                          source = ''MORTGAGE15US''\<rparr>\<rparr>,
      Some \<lparr>ts = 5,
            payload = \<lparr>ratePercent = Some (69 / 10), rawPercent = Some (Some (127 / 20)),
                       adjustedAdded = Some (1 / 2),
                       observationDate = Some (JStr ''2025-01-02''),
                       source = ''MORTGAGE15US''\<rparr>\<rparr>,
      \<lparr>upstream = (),
       calls = [Request ''GET'' ''https://api.stlouisfed.org/fred/series/observations''
                  [(''series_id'', ''MORTGAGE15US''), (''api_key'', ''fred-key''),
                   (''file_type'', ''json''), (''sort_order'', ''desc''), (''limit'', ''14'')]
                  None None]\<rparr>)"
    unfolding a by (simp add: idle_def test_runtime_def lift2_def Let_def)
  have 2: "source (payload (the (fst (snd
         (handleRate (test_runtime []) test_env (answers (fred_answer fred_sample)) 5 ''GET''
            None idle))))) = ''MORTGAGE30US''"
    unfolding b by (simp add: Let_def)
  from 1 2 show ?thesis by blast
qed

text \<open>
  C4. A GET on \<^verbatim>\<open>handleRate\<close> always answers 200 with a quote. When the cache is absent
  or expired and the fetch fails (the credential is unset or empty, \<^verbatim>\<open>fetch\<close> rejects,
  the status is not ok, the body does not parse, no observation carries a value other
  than \<^verbatim>\<open>'.'\<close>, or the first valid value does not convert to a finite number), the
  quote is the fallback \<^verbatim>\<open>{ratePercent: 5.5, rawPercent: null, adjustedAdded: 0.5,
  observationDate: null, source: 'fallback'}\<close>, and that is what the cache then holds.
\<close>

theorem getQuote_fallback:
  "(\<exists>q. fst (handleRate rt penv fetch now ''GET'' fredCache w) =
      \<lparr>status = 200,
       headers = cors_headers @ [(''Cache-Control'', ''public, max-age=3600'')],
       body = QuoteBody q\<rparr>)
   \<and> ((fredCache = None \<or> (\<exists>c. fredCache = Some c \<and> TTL \<le> now - ts c))
        \<and> (FRED_API_KEY penv = None \<or> FRED_API_KEY penv = Some []
             \<or> (\<exists>key res u'. FRED_API_KEY penv = Some key
                   \<and> fetch (upstream w) (fred_request (seriesId_of penv) key) = (res, u')
                   \<and> ((\<exists>e. res = Rejects e)
                        \<or> (\<exists>bt js. res = Resp False bt js)
                        \<or> (\<exists>bt e. res = Resp True bt (Inl e))
                        \<or> (\<exists>bt data. res = Resp True bt (Inr data)
                              \<and> list_all (\<lambda>y. get_prop y ''value'' = None
                                                 \<or> get_prop y ''value'' = Some (JStr ''.''))
                                   (observations_of rt data))
                        \<or> (\<exists>bt data firstValid. res = Resp True bt (Inr data)
                              \<and> find (obs_valid rt) (observations_of rt data) = Some firstValid
                              \<and> (case parseFloat rt (get_prop firstValid ''value'') of
                                    Inl e \<Rightarrow> True
                                  | Inr raw \<Rightarrow> \<not> isFinite rt raw)))))
       \<longrightarrow> fst (handleRate rt penv fetch now ''GET'' fredCache w) =
             \<lparr>status = 200,
              headers = cors_headers @ [(''Cache-Control'', ''public, max-age=3600'')],
              body = QuoteBody \<lparr>ratePercent = lit_5_5 rt, rawPercent = None,
                                 adjustedAdded = lit_0_5 rt, observationDate = Some JNull,
                                 source = ''fallback''\<rparr>\<rparr>
           \<and> fst (snd (handleRate rt penv fetch now ''GET'' fredCache w)) =
               Some \<lparr>ts = now,
                     payload = \<lparr>ratePercent = lit_5_5 rt, rawPercent = None,
                                adjustedAdded = lit_0_5 rt, observationDate = Some JNull,
                                source = ''fallback''\<rparr>\<rparr>)"
proof (intro conjI impI)
  show "\<exists>q. fst (handleRate rt penv fetch now ''GET'' fredCache w) =
      \<lparr>status = 200,
       headers = cors_headers @ [(''Cache-Control'', ''public, max-age=3600'')],
       body = QuoteBody q\<rparr>"
    by (rule handleRate_GET_total)
next
  assume a: "(fredCache = None \<or> (\<exists>c. fredCache = Some c \<and> TTL \<le> now - ts c))
        \<and> (FRED_API_KEY penv = None \<or> FRED_API_KEY penv = Some []
             \<or> (\<exists>key res u'. FRED_API_KEY penv = Some key
                   \<and> fetch (upstream w) (fred_request (seriesId_of penv) key) = (res, u')
                   \<and> ((\<exists>e. res = Rejects e)
                        \<or> (\<exists>bt js. res = Resp False bt js)
                        \<or> (\<exists>bt e. res = Resp True bt (Inl e))
                        \<or> (\<exists>bt data. res = Resp True bt (Inr data)
                              \<and> list_all (\<lambda>y. get_prop y ''value'' = None
                                                 \<or> get_prop y ''value'' = Some (JStr ''.''))
                                   (observations_of rt data))
                        \<or> (\<exists>bt data firstValid. res = Resp True bt (Inr data)
                              \<and> find (obs_valid rt) (observations_of rt data) = Some firstValid
                              \<and> (case parseFloat rt (get_prop firstValid ''value'') of
                                    Inl e \<Rightarrow> True
                                  | Inr raw \<Rightarrow> \<not> isFinite rt raw)))))"
  then have st: "(case fredCache of None \<Rightarrow> True | Some e \<Rightarrow> TTL \<le> now - ts e)"
    by auto
  have none: "fst (fetchFredLatest rt penv fetch w) = None"
  proof (cases "FRED_API_KEY penv = None \<or> FRED_API_KEY penv = Some []")
    case True
    then show ?thesis by (simp add: fetchFredLatest_no_key)
  next
    case False
    with a obtain key res u' where k: "FRED_API_KEY penv = Some key" "key \<noteq> []"
      and r: "fetch (upstream w) (fred_request (seriesId_of penv) key) = (res, u')"
      and c: "(\<exists>e. res = Rejects e)
                        \<or> (\<exists>bt js. res = Resp False bt js)
                        \<or> (\<exists>bt e. res = Resp True bt (Inl e))
                        \<or> (\<exists>bt data. res = Resp True bt (Inr data)
                              \<and> list_all (\<lambda>y. get_prop y ''value'' = None
                                                 \<or> get_prop y ''value'' = Some (JStr ''.''))
                                   (observations_of rt data))
                        \<or> (\<exists>bt data firstValid. res = Resp True bt (Inr data)
                              \<and> find (obs_valid rt) (observations_of rt data) = Some firstValid
                              \<and> (case parseFloat rt (get_prop firstValid ''value'') of
                                    Inl e \<Rightarrow> True
                                  | Inr raw \<Rightarrow> \<not> isFinite rt raw))"
      by auto
    have nv: "list_all (\<lambda>y. get_prop y ''value'' = None
                                \<or> get_prop y ''value'' = Some (JStr ''.'')) xs
              \<Longrightarrow> find (obs_valid rt) xs = None" for xs
      by (rule find_none) (auto simp: list_all_iff obs_valid_def)
    from c show ?thesis
      by (elim disjE exE conjE)
         (auto simp: fetchFredLatest_with_key[where fetch=fetch and w=w, OF k r] nv
            split: sum.splits)
  qed
  show "fst (handleRate rt penv fetch now ''GET'' fredCache w) =
             \<lparr>status = 200,
              headers = cors_headers @ [(''Cache-Control'', ''public, max-age=3600'')],
              body = QuoteBody \<lparr>ratePercent = lit_5_5 rt, rawPercent = None,
                                 adjustedAdded = lit_0_5 rt, observationDate = Some JNull,
                                 source = ''fallback''\<rparr>\<rparr>"
    using none
    by (cases "fetchFredLatest rt penv fetch w") (simp add: handleRate_miss[OF st] fallback_quote_def)
  show "fst (snd (handleRate rt penv fetch now ''GET'' fredCache w)) =
               Some \<lparr>ts = now,
                     payload = \<lparr>ratePercent = lit_5_5 rt, rawPercent = None,
                                adjustedAdded = lit_0_5 rt, observationDate = Some JNull,
                                source = ''fallback''\<rparr>\<rparr>"
    using none
    by (cases "fetchFredLatest rt penv fetch w") (simp add: handleRate_miss[OF st] fallback_quote_def)
qed

theorem getQuote_fallback_witness:
  "fst (handleRate (test_runtime []) test_env
          (answers (fred_answer (JObj [(''observations'',
             JArr [JObj [(''date'', JStr ''2025-01-09''), (''value'', JStr ''.'')]])])))
          5 ''GET'' None idle) =
     \<lparr>status = 200,
      headers = cors_headers @ [(''Cache-Control'', ''public, max-age=3600'')],
      body = QuoteBody \<lparr>ratePercent = Some (11 / 2), rawPercent = None,
                         adjustedAdded = Some (1 / 2), observationDate = Some JNull,
                         source = ''fallback''\<rparr>\<rparr>"
  using getQuote_fallback[where rt = "test_runtime []" and penv = test_env
      and fredCache = None and now = 5 and w = idle
      and fetch = "answers (fred_answer (JObj [(''observations'',
             JArr [JObj [(''date'', JStr ''2025-01-09''), (''value'', JStr ''.'')]])]))"]
  by (simp add: test_env_def answers_def fred_answer_def idle_def observations_of_def
        test_runtime_def seriesId_of_def)

lemma fetchFredLatest_calls:
  "calls (snd (fetchFredLatest rt penv fetch w)) =
     calls w @ (case FRED_API_KEY penv of None \<Rightarrow> []
                | Some key \<Rightarrow> if key = [] then [] else [fred_request (seriesId_of penv) key])"
  by (auto simp: fetchFredLatest_def do_fetch_def Let_def
           split: option.splits prod.splits fetch_result.splits sum.splits)

text \<open>
  C5. With a cache entry captured less than one hour (3600000 ms) before \<open>now\<close>, a GET
  answers with the cached payload, leaves the cache as it is and issues no request. With
  no entry, or one at least an hour old, \<^verbatim>\<open>fetchFredLatest\<close> runs (issuing its one
  request when the credential is set), and the cache is replaced by the answered
  payload stamped \<open>now\<close>.
\<close>

theorem handleRate_cache:
  "(fredCache = Some c \<and> now - ts c < 60 * 60 * 1000 \<longrightarrow>
      handleRate rt penv fetch now ''GET'' fredCache w =
        (\<lparr>status = 200,
          headers = cors_headers @ [(''Cache-Control'', ''public, max-age=3600'')],
          body = QuoteBody (payload c)\<rparr>, Some c, w))
   \<and> (fredCache = None \<or> (fredCache = Some c \<and> 60 * 60 * 1000 \<le> now - ts c) \<longrightarrow>
        (\<exists>p w1. handleRate rt penv fetch now ''GET'' fredCache w =
           (\<lparr>status = 200,
             headers = cors_headers @ [(''Cache-Control'', ''public, max-age=3600'')],
             body = QuoteBody p\<rparr>, Some \<lparr>ts = now, payload = p\<rparr>, w1)
         \<and> w1 = snd (fetchFredLatest rt penv fetch w)
         \<and> p = (case fst (fetchFredLatest rt penv fetch w) of
                  Some q \<Rightarrow> q | None \<Rightarrow> fallback_quote rt)
         \<and> calls w1 = calls w @
               (case FRED_API_KEY penv of
                  None \<Rightarrow> []
                | Some key \<Rightarrow> if key = [] then [] else [fred_request (seriesId_of penv) key])))"
proof (intro conjI impI)
  assume "fredCache = Some c \<and> now - ts c < 60 * 60 * 1000"
  then show "handleRate rt penv fetch now ''GET'' fredCache w =
        (\<lparr>status = 200,
          headers = cors_headers @ [(''Cache-Control'', ''public, max-age=3600'')],
          body = QuoteBody (payload c)\<rparr>, Some c, w)"
    by (simp add: handleRate_def TTL_def)
next
  assume "fredCache = None \<or> (fredCache = Some c \<and> 60 * 60 * 1000 \<le> now - ts c)"
  then have st: "(case fredCache of None \<Rightarrow> True | Some e \<Rightarrow> TTL \<le> now - ts e)"
    by (auto simp: TTL_def)
  show "\<exists>p w1. handleRate rt penv fetch now ''GET'' fredCache w =
           (\<lparr>status = 200,
             headers = cors_headers @ [(''Cache-Control'', ''public, max-age=3600'')],
             body = QuoteBody p\<rparr>, Some \<lparr>ts = now, payload = p\<rparr>, w1)
         \<and> w1 = snd (fetchFredLatest rt penv fetch w)
         \<and> p = (case fst (fetchFredLatest rt penv fetch w) of
                  Some q \<Rightarrow> q | None \<Rightarrow> fallback_quote rt)
         \<and> calls w1 = calls w @
               (case FRED_API_KEY penv of
                  None \<Rightarrow> []
                | Some key \<Rightarrow> if key = [] then [] else [fred_request (seriesId_of penv) key])"
    using handleRate_miss[OF st, of rt penv fetch w] fetchFredLatest_calls[of rt penv fetch w]
    by (cases "fetchFredLatest rt penv fetch w") simp
qed

theorem handleRate_cache_witness:
  "handleRate (test_runtime []) test_env (answers (fred_answer fred_sample)) 3600999 ''GET''
     (Some \<lparr>ts = 1000, payload = fallback_quote (test_runtime [])\<rparr>) idle =
     (\<lparr>status = 200,
       headers = cors_headers @ [(''Cache-Control'', ''public, max-age=3600'')],
       body = QuoteBody (fallback_quote (test_runtime []))\<rparr>,
      Some \<lparr>ts = 1000, payload = fallback_quote (test_runtime [])\<rparr>, idle)
   \<and> fst (snd (handleRate (test_runtime []) test_env (answers (Rejects (TypeError ''fetch failed'')))
                  3601000 ''GET''
                  (Some \<lparr>ts = 1000, payload = fallback_quote (test_runtime [])\<rparr>) idle)) =
       Some \<lparr>ts = 3601000, payload = fallback_quote (test_runtime [])\<rparr>
   \<and> calls (snd (snd (handleRate (test_runtime []) test_env
                          (answers (Rejects (TypeError ''fetch failed'')))
                          3601000 ''GET''
                          (Some \<lparr>ts = 1000, payload = fallback_quote (test_runtime [])\<rparr>) idle))) =
       [fred_request ''MORTGAGE30US'' ''fred-key'']"
  using handleRate_cache[where rt = "test_runtime []" and penv = test_env
      and fetch = "answers (fred_answer fred_sample)" and now = 3600999 and w = idle
      and fredCache = "Some \<lparr>ts = 1000, payload = fallback_quote (test_runtime [])\<rparr>"
      and c = "\<lparr>ts = 1000, payload = fallback_quote (test_runtime [])\<rparr>"]
    handleRate_cache[where rt = "test_runtime []" and penv = test_env
      and fetch = "answers (Rejects (TypeError ''fetch failed''))" and now = 3601000 and w = idle
      and fredCache = "Some \<lparr>ts = 1000, payload = fallback_quote (test_runtime [])\<rparr>"
      and c = "\<lparr>ts = 1000, payload = fallback_quote (test_runtime [])\<rparr>"]
  by (auto simp: test_env_def answers_def idle_def seriesId_of_def fetchFredLatest_def
        do_fetch_def)

lemma str_includes_at: "str_includes s ''@'' \<longleftrightarrow> CHR ''@'' \<in> set s"
  by (induction s) auto

lemma subscribe_try_bad_email:
  assumes "parseJsonBody rt chunks = JObj kvs"
    and "map_of kvs ''email'' = None \<or> (\<exists>s. map_of kvs ''email'' = Some (JStr s) \<and> CHR ''@'' \<notin> set s)"
  shows "subscribe_try rt penv fetch now1 now2 chunks w =
           (Inr (bad_request ''Invalid email address''), w)"
  using assms
  by (auto simp: subscribe_try_def Let_def str_includes_at)

lemma subscribe_try_missing:
  assumes "parseJsonBody rt chunks = JObj kvs"
    and "map_of kvs ''email'' = Some (JStr em)" "CHR ''@'' \<in> set em"
    and "map_of kvs ''settlementId'' = None \<or> map_of kvs ''settlementId'' = Some (JStr [])
         \<or> map_of kvs ''settlementName'' = None \<or> map_of kvs ''settlementName'' = Some (JStr [])"
  shows "subscribe_try rt penv fetch now1 now2 chunks w =
           (Inr (bad_request ''Missing required fields''), w)"
proof -
  from assms(3) have "em \<noteq> []" by auto
  with assms show ?thesis
    by (auto simp: subscribe_try_def Let_def str_includes_at split: option.splits)
qed

lemma subscribe_try_valid:
  assumes "parseJsonBody rt chunks = JObj kvs"
    and "map_of kvs ''email'' = Some (JStr em)" "CHR ''@'' \<in> set em"
    and "map_of kvs ''settlementId'' = Some (JStr tg)" "tg \<noteq> []"
    and "map_of kvs ''settlementName'' = Some (JStr nm)" "nm \<noteq> []"
  shows "subscribe_try rt penv fetch now1 now2 chunks w =
     (case subscribeToButtondown rt penv fetch now1 (JStr em) (JStr tg) (JStr nm)
             (case js_or rt (map_of kvs ''deadline'') (Some JNull) of
                None \<Rightarrow> JNull | Some d \<Rightarrow> d) w of
        (Inr r, w1) \<Rightarrow> (Inr (success created_message), w1)
      | (Inl e, w1) \<Rightarrow>
          if str_includes (message e) ''already subscribed'' then
            (case updateButtondownSubscriber rt penv fetch now2 (JStr em) (JStr tg) (JStr nm)
                    (case js_or rt (map_of kvs ''deadline'') (Some JNull) of
                       None \<Rightarrow> JNull | Some d \<Rightarrow> d) w1 of
               (Inr r, w2) \<Rightarrow> (Inr (success ''Settlement added to your subscriptions!''), w2)
             | (Inl e2, w2) \<Rightarrow> (Inl e2, w2))
          else (Inl e, w1))"
proof -
  from assms(3) have "em \<noteq> []" by auto
  with assms show ?thesis
    by (simp add: subscribe_try_def Let_def str_includes_at)
qed

lemma create_calls:
  "calls (snd (subscribeToButtondown rt penv fetch now email tag name dl w)) =
     calls w @ (case BUTTONDOWN_API_KEY penv of
                  None \<Rightarrow> []
                | Some k \<Rightarrow>
                    if k = [] then []
                    else [create_request k (create_body rt now email tag name dl)])"
  by (auto simp: subscribeToButtondown_def do_fetch_def
           split: option.splits prod.splits fetch_result.splits sum.splits)

lemma not_set_no_match:
  "\<not> str_includes ''BUTTONDOWN_API_KEY not set'' ''already subscribed''"
  by simp

lemma create_match_has_key:
  assumes "subscribeToButtondown rt penv fetch now email tag name dl w = (Inl e, w1)"
    and "str_includes (message e) ''already subscribed''"
  shows "\<exists>key. BUTTONDOWN_API_KEY penv = Some key \<and> key \<noteq> []"
proof (cases "BUTTONDOWN_API_KEY penv")
  case None
  with assms(1) have "message e = ''BUTTONDOWN_API_KEY not set''"
    by (auto simp: subscribeToButtondown_def)
  with assms(2) not_set_no_match show ?thesis by simp
next
  case (Some k)
  show ?thesis
  proof (cases "k = []")
    case True
    with Some assms(1) have "message e = ''BUTTONDOWN_API_KEY not set''"
      by (auto simp: subscribeToButtondown_def)
    with assms(2) not_set_no_match show ?thesis by simp
  next
    case False
    with Some show ?thesis by simp
  qed
qed

lemma patch_found_calls:
  "\<exists>rest. calls (snd (patch_found rt fetch now key data tag name dl w1)) = calls w1 @ rest"
  by (auto simp: patch_found_def do_fetch_def
           split: option.splits prod.splits fetch_result.splits sum.splits)

lemma update_with_key:
  assumes "BUTTONDOWN_API_KEY penv = Some key" "key \<noteq> []"
    and "encodeURIComponent rt em = Inr enc"
    and "fetch (upstream w) (search_request key enc) = (res, u1)"
  shows "updateButtondownSubscriber rt penv fetch now (JStr em) tag name dl w =
     (case res of
        Rejects e \<Rightarrow> (Inl e, \<lparr>upstream = u1, calls = calls w @ [search_request key enc]\<rparr>)
      | Resp ok bt js \<Rightarrow>
          if \<not> ok then
            (Inl (Error ''Failed to find subscriber''),
             \<lparr>upstream = u1, calls = calls w @ [search_request key enc]\<rparr>)
          else
            (case js of
               Inl e \<Rightarrow> (Inl e, \<lparr>upstream = u1, calls = calls w @ [search_request key enc]\<rparr>)
             | Inr data \<Rightarrow>
                 patch_found rt fetch now key data tag name dl
                   \<lparr>upstream = u1, calls = calls w @ [search_request key enc]\<rparr>))"
  using assms
  by (simp add: updateButtondownSubscriber_def do_fetch_def
           split: fetch_result.splits sum.splits)

lemma update_calls:
  assumes "BUTTONDOWN_API_KEY penv = Some key" "key \<noteq> []"
    and "encodeURIComponent rt em = Inr enc"
  shows "\<exists>rest. calls (snd (updateButtondownSubscriber rt penv fetch now (JStr em) tag name dl w))
           = calls w @ search_request key enc # rest"
proof -
  obtain res u1 where f: "fetch (upstream w) (search_request key enc) = (res, u1)"
    by (cases "fetch (upstream w) (search_request key enc)")
  let ?w1 = "\<lparr>upstream = u1, calls = calls w @ [search_request key enc]\<rparr>"
  note u = update_with_key[where fetch = fetch and w = w, OF assms f]
  show ?thesis
  proof (cases res)
    case (Rejects e)
    then show ?thesis by (simp add: u)
  next
    case (Resp ok bt js)
    show ?thesis
    proof (cases js)
      case (Inl e)
      with Resp show ?thesis by (simp add: u)
    next
      case (Inr data)
      obtain rest where
        "calls (snd (patch_found rt fetch now key data tag name dl ?w1)) = calls ?w1 @ rest"
        using patch_found_calls[of rt fetch now key data tag name dl ?w1] by blast
      with Resp Inr show ?thesis by (simp add: u)
    qed
  qed
qed

lemma includes_strings:
  "list_ex (\<lambda>x. same_value_zero rt x (JStr tg)) (map JStr tgs) \<longleftrightarrow> tg \<in> set tgs"
  by (induction tgs) auto

lemma updatedTags_strings:
  assumes "get_prop sub ''tags'' = Some (JArr (map JStr tgs))
           \<or> (get_prop sub ''tags'' = None \<and> tgs = [])"
  shows "updatedTags rt sub (JStr tg) =
           Inr (JArr (map JStr (if tg \<in> set tgs then tgs else tgs @ [tg])))"
  using assms
  by (auto simp: updatedTags_def js_or_def includes_strings)

lemma meta_object:
  assumes "get_prop sub ''metadata'' = Some (JObj mkvs)
           \<or> (get_prop sub ''metadata'' = None \<and> mkvs = [])"
  shows "meta rt sub (JStr tg) name dl now =
           Inr (JObj (AList.update (''settlement_'' @ tg)
                  (JStr (JSON_stringify rt (settlement_record name dl now))) mkvs))"
  using assms
  by (auto simp: meta_def js_or_def)

lemma count_list_distinct: "distinct xs \<Longrightarrow> x \<in> set xs \<Longrightarrow> count_list xs x = 1"
  by (induction xs) (auto simp: count_list_0_iff)

lemma list_create:
  assumes "BUTTONDOWN_API_KEY penv = Some key" "key \<noteq> []"
  shows "subscribeToButtondown rt penv (mailing_list rt) now (JStr em) (JStr tg) nm dl
           \<lparr>upstream = [], calls = cs\<rparr> =
         (Inr (subscriber_json
                 \<lparr>sub_id = ''sub-'' @ em, sub_email = em, sub_tags = JArr [JStr tg],
                  sub_metadata =
                    JObj ((''settlementName'', nm) # (''subscribedAt'', JStr now)
                          # (if truthy rt dl then [(''deadline'', dl)] else []))\<rparr>),
          \<lparr>upstream =
             [\<lparr>sub_id = ''sub-'' @ em, sub_email = em, sub_tags = JArr [JStr tg],
               sub_metadata =
                 JObj ((''settlementName'', nm) # (''subscribedAt'', JStr now)
                       # (if truthy rt dl then [(''deadline'', dl)] else []))\<rparr>],
           calls = cs @ [create_request key (create_body rt now (JStr em) (JStr tg) nm dl)]\<rparr>)"
  using assms
  by (simp add: subscribeToButtondown_def do_fetch_def create_request_def create_body_def
        answer_def field_or_def Let_def)

lemma list_refuses:
  assumes "BUTTONDOWN_API_KEY penv = Some key" "key \<noteq> []"
    and "JSON_parse rt (JSON_stringify rt already_subscribed) = Inr already_subscribed"
    and "list_ex (\<lambda>s. sub_email s = em) subs"
  shows "subscribeToButtondown rt penv (mailing_list rt) now (JStr em) tag nm dl
           \<lparr>upstream = subs, calls = cs\<rparr> =
         (Inl (Error ''That email address is already subscribed.''),
          \<lparr>upstream = subs,
           calls = cs @ [create_request key (create_body rt now (JStr em) tag nm dl)]\<rparr>)"
proof -
  have m: "new_Error rt (failure_msg rt (JSON_stringify rt already_subscribed))
             = Error ''That email address is already subscribed.''"
    unfolding failure_msg_def assms(3)
    by (simp add: new_Error_def js_or_def already_subscribed_def)
  from assms(1,2,4) show ?thesis
    by (simp add: subscribeToButtondown_def do_fetch_def create_request_def create_body_def
          answer_def m)
qed

lemma list_update:
  assumes "BUTTONDOWN_API_KEY penv = Some key" "key \<noteq> []"
    and "encodeURIComponent rt em = Inr enc"
    and "sub_email s = em" "sub_tags s = JArr (map JStr tgs)" "sub_metadata s = JObj mkvs"
  shows "snd (updateButtondownSubscriber rt penv (mailing_list rt) now (JStr em) (JStr tg) nm dl
           \<lparr>upstream = [s], calls = cs\<rparr>) =
          \<lparr>upstream =
             [s\<lparr>sub_tags := JArr (map JStr (if tg \<in> set tgs then tgs else tgs @ [tg])),
                sub_metadata :=
                  JObj (AList.update (''settlement_'' @ tg)
                          (JStr (JSON_stringify rt (settlement_record nm dl now))) mkvs)\<rparr>],
           calls = cs @ [search_request key enc,
                         patch_request key (sub_id s)
                           (JArr (map JStr (if tg \<in> set tgs then tgs else tgs @ [tg])))
                           (JObj (AList.update (''settlement_'' @ tg)
                              (JStr (JSON_stringify rt (settlement_record nm dl now))) mkvs))]\<rparr>"
    and "\<exists>r. fst (updateButtondownSubscriber rt penv (mailing_list rt) now (JStr em) (JStr tg)
                   nm dl \<lparr>upstream = [s], calls = cs\<rparr>) = Inr r"
proof -
  let ?w1 = "\<lparr>upstream = [s], calls = cs @ [search_request key enc]\<rparr>"
  let ?data = "JObj [(''results'', JArr [subscriber_json s])] :: 'a json"
  have f: "mailing_list rt (upstream \<lparr>upstream = [s], calls = cs\<rparr>) (search_request key enc)
             = (answer rt True ?data, [s])"
    using assms(3,4) by (simp add: search_request_def search_matches_def)
  have t: "updatedTags rt (subscriber_json s) (JStr tg) =
             Inr (JArr (map JStr (if tg \<in> set tgs then tgs else tgs @ [tg])))"
    by (rule updatedTags_strings) (simp add: subscriber_json_def assms(5))
  have m: "meta rt (subscriber_json s) (JStr tg) nm dl now =
             Inr (JObj (AList.update (''settlement_'' @ tg)
                    (JStr (JSON_stringify rt (settlement_record nm dl now))) mkvs))"
    by (rule meta_object) (simp add: subscriber_json_def assms(6))
  have i: "ToString_opt rt (get_prop (subscriber_json s) ''id'') = Inr (sub_id s)"
    by (simp add: subscriber_json_def)
  have nn: "subscriber_json s \<noteq> JNull"
    by (simp add: subscriber_json_def)
  have u: "updateButtondownSubscriber rt penv (mailing_list rt) now (JStr em) (JStr tg) nm dl
             \<lparr>upstream = [s], calls = cs\<rparr> =
           patch_found rt (mailing_list rt) now key ?data (JStr tg) nm dl ?w1"
    by (simp add: update_with_key[where fetch = "mailing_list rt"
          and w = "\<lparr>upstream = [s], calls = cs\<rparr>", OF assms(1,2,3) f] answer_def)
  have p: "patch_found rt (mailing_list rt) now key ?data (JStr tg) nm dl ?w1 =
      (Inr (subscriber_json (s\<lparr>sub_tags := JArr (map JStr (if tg \<in> set tgs then tgs else tgs @ [tg])),
                sub_metadata :=
                  JObj (AList.update (''settlement_'' @ tg)
                          (JStr (JSON_stringify rt (settlement_record nm dl now))) mkvs)\<rparr>)),
       \<lparr>upstream =
             [s\<lparr>sub_tags := JArr (map JStr (if tg \<in> set tgs then tgs else tgs @ [tg])),
                sub_metadata :=
                  JObj (AList.update (''settlement_'' @ tg)
                          (JStr (JSON_stringify rt (settlement_record nm dl now))) mkvs)\<rparr>],
           calls = cs @ [search_request key enc,
                         patch_request key (sub_id s)
                           (JArr (map JStr (if tg \<in> set tgs then tgs else tgs @ [tg])))
                           (JObj (AList.update (''settlement_'' @ tg)
                              (JStr (JSON_stringify rt (settlement_record nm dl now))) mkvs))]\<rparr>)"
    unfolding patch_found_def
    by (simp add: t m i nn do_fetch_def patch_request_def patch_matches_def answer_def
          patch_subscriber_def field_or_def)
  show "snd (updateButtondownSubscriber rt penv (mailing_list rt) now (JStr em) (JStr tg) nm dl
           \<lparr>upstream = [s], calls = cs\<rparr>) =
          \<lparr>upstream =
             [s\<lparr>sub_tags := JArr (map JStr (if tg \<in> set tgs then tgs else tgs @ [tg])),
                sub_metadata :=
                  JObj (AList.update (''settlement_'' @ tg)
                          (JStr (JSON_stringify rt (settlement_record nm dl now))) mkvs)\<rparr>],
           calls = cs @ [search_request key enc,
                         patch_request key (sub_id s)
                           (JArr (map JStr (if tg \<in> set tgs then tgs else tgs @ [tg])))
                           (JObj (AList.update (''settlement_'' @ tg)
                              (JStr (JSON_stringify rt (settlement_record nm dl now))) mkvs))]\<rparr>"
    by (simp add: u p)
  show "\<exists>r. fst (updateButtondownSubscriber rt penv (mailing_list rt) now (JStr em) (JStr tg)
                   nm dl \<lparr>upstream = [s], calls = cs\<rparr>) = Inr r"
    by (simp add: u p)
qed


lemma handleSubscribe_valid:
  assumes "parseJsonBody rt chunks = JObj kvs"
    and "map_of kvs ''email'' = Some (JStr em)" "CHR ''@'' \<in> set em"
    and "map_of kvs ''settlementId'' = Some (JStr tg)" "tg \<noteq> []"
    and "map_of kvs ''settlementName'' = Some (JStr nm)" "nm \<noteq> []"
    and "map_of kvs ''deadline'' = None"
  shows "handleSubscribe rt penv fetch now1 now2 ''POST'' chunks w =
     (case subscribeToButtondown rt penv fetch now1 (JStr em) (JStr tg) (JStr nm) JNull w of
        (Inr r, w1) \<Rightarrow> (success created_message, w1)
      | (Inl e, w1) \<Rightarrow>
          if str_includes (message e) ''already subscribed'' then
            (case updateButtondownSubscriber rt penv fetch now2 (JStr em) (JStr tg) (JStr nm)
                    JNull w1 of
               (Inr r, w2) \<Rightarrow> (success ''Settlement added to your subscriptions!'', w2)
             | (Inl e2, w2) \<Rightarrow> (server_error e2, w2))
          else (server_error e, w1))"
  using assms(8)
  by (simp add: handleSubscribe_def subscribe_try_valid[OF assms(1-7)] js_or_def
        split: prod.splits sum.splits)

lemma key_secret: "BUTTONDOWN_API_KEY test_env = Some ''secret''" "''secret'' \<noteq> []"
  by (simp_all add: test_env_def)

lemma request_A_fields:
  "parseJsonBody engine [test_stringify request_A] =
     JObj [(''email'', JStr ''user@x.com''), (''settlementId'', JStr ''tagA''),
           (''settlementName'', JStr ''Name'')]"
  unfolding parse_A by (simp add: request_A_def)

lemma request_B_fields:
  "parseJsonBody engine [test_stringify request_B] =
     JObj [(''email'', JStr ''user@x.com''), (''settlementId'', JStr ''tagB''),
           (''settlementName'', JStr ''Other'')]"
  unfolding parse_B by (simp add: request_B_def)

lemma engine_refusal:
  "JSON_parse engine (JSON_stringify engine already_subscribed) = Inr already_subscribed"
  by (simp add: engine_stringify parse_refusal)

text \<open>
  Validation on string fields. Let the body parse to an object whose \<^verbatim>\<open>email\<close>,
  \<^verbatim>\<open>settlementId\<close> and \<^verbatim>\<open>settlementName\<close> are strings or absent. If the email is
  absent or has no \<^verbatim>\<open>@\<close>, or the tag or the name is absent or empty,
  \<^verbatim>\<open>handleSubscribe\<close> answers 400 and the world is unchanged.
\<close>

lemma validation_rejects_strings:
  assumes "parseJsonBody rt chunks = JObj kvs"
    and "map_of kvs ''email'' = map_option JStr email"
    and "map_of kvs ''settlementId'' = map_option JStr tag"
    and "map_of kvs ''settlementName'' = map_option JStr name"
    and "email = None \<or> (\<exists>s. email = Some s \<and> CHR ''@'' \<notin> set s)
         \<or> tag = None \<or> tag = Some [] \<or> name = None \<or> name = Some []"
  shows "handleSubscribe rt penv fetch now1 now2 ''POST'' chunks w =
           (\<lparr>status = 400, headers = cors_headers,
             body = ErrorBody (if email = None \<or> (\<exists>s. email = Some s \<and> CHR ''@'' \<notin> set s)
                               then ''Invalid email address''
                               else ''Missing required fields'')\<rparr>, w)"
proof (cases "email = None \<or> (\<exists>s. email = Some s \<and> CHR ''@'' \<notin> set s)")
  case True
  with assms(2) have "map_of kvs ''email'' = None
      \<or> (\<exists>s. map_of kvs ''email'' = Some (JStr s) \<and> CHR ''@'' \<notin> set s)"
    by auto
  with True show ?thesis
    by (simp add: handleSubscribe_def bad_request_def subscribe_try_bad_email[OF assms(1)])
next
  case False
  then obtain em where em: "email = Some em" "CHR ''@'' \<in> set em"
    by (cases email) auto
  from False assms(5) have "tag = None \<or> tag = Some [] \<or> name = None \<or> name = Some []"
    by blast
  with assms(3,4) have m: "map_of kvs ''settlementId'' = None
         \<or> map_of kvs ''settlementId'' = Some (JStr [])
         \<or> map_of kvs ''settlementName'' = None
         \<or> map_of kvs ''settlementName'' = Some (JStr [])"
    by auto
  from em assms(2) have e: "map_of kvs ''email'' = Some (JStr em)" by simp
  from False show ?thesis
    by (simp add: handleSubscribe_def bad_request_def
          subscribe_try_missing[OF assms(1) e em(2) m])
qed

lemma validation_rejects_strings_example:
  "handleSubscribe engine test_env (mailing_list engine) ''T1'' ''T2'' ''POST''
     [test_stringify request_no_at] nobody =
     (\<lparr>status = 400, headers = cors_headers, body = ErrorBody ''Invalid email address''\<rparr>,
      nobody)"
proof -
  let ?kvs = "[(''email'', JStr ''user.x.com''), (''settlementId'', JStr ''tagA''),
               (''settlementName'', JStr ''Name'')] :: (string \<times> rat option json) list"
  have h1: "parseJsonBody engine [test_stringify request_no_at] = JObj ?kvs"
    unfolding parse_no_at by (simp add: request_no_at_def)
  have h2: "map_of ?kvs ''email'' = map_option JStr (Some ''user.x.com'')"
    and h3: "map_of ?kvs ''settlementId'' = map_option JStr (Some ''tagA'')"
    and h4: "map_of ?kvs ''settlementName'' = map_option JStr (Some ''Name'')"
    by simp_all
  have h5: "Some ''user.x.com'' = None
      \<or> (\<exists>s. Some ''user.x.com'' = Some s \<and> CHR ''@'' \<notin> set s)
      \<or> Some ''tagA'' = None \<or> Some ''tagA'' = Some [] \<or> Some ''Name'' = None
      \<or> Some ''Name'' = Some []"
    by simp
  show ?thesis
    using validation_rejects_strings[OF h1 h2 h3 h4 h5, of test_env "mailing_list engine"
        "''T1''" "''T2''" nobody]
    by simp
qed

text \<open>
  C6. The validation of line 107 is \<^verbatim>\<open>!email || !email.includes('@')\<close>. When the
  email of the body is a truthy value that is neither a string nor an array (a number
  other than 0, \<^verbatim>\<open>true\<close>, an object), it has no \<^verbatim>\<open>@\<close>, but \<^verbatim>\<open>email.includes\<close> is
  not a function: the line throws, the outer \<^verbatim>\<open>catch\<close> answers, and the status is 500
  with an error message, not 400. No request is issued: the world is unchanged.
\<close>

theorem validation_throws_on_nonstring_email:
  assumes "parseJsonBody rt chunks = JObj kvs"
    and "map_of kvs ''email'' = Some email"
    and "(\<exists>n. email = JNum n \<and> num_truthy rt n) \<or> email = JBool True \<or> (\<exists>ps. email = JObj ps)"
  shows "\<exists>m. m \<noteq> [] \<and>
           handleSubscribe rt penv fetch now1 now2 ''POST'' chunks w =
             (\<lparr>status = 500, headers = cors_headers, body = ErrorBody m\<rparr>, w)"
proof -
  from assms(3) have t: "truthy rt email"
    and i: "js_includes rt email (JStr ''@'') = Inl (TypeError ''includes is not a function'')"
    by auto
  have "subscribe_try rt penv fetch now1 now2 chunks w =
          (Inl (TypeError ''includes is not a function''), w)"
    by (simp add: subscribe_try_def Let_def assms(1,2) t i)
  then have "handleSubscribe rt penv fetch now1 now2 ''POST'' chunks w =
             (\<lparr>status = 500, headers = cors_headers,
               body = ErrorBody ''includes is not a function''\<rparr>, w)"
    by (simp add: handleSubscribe_def server_error_def)
  then show ?thesis by simp
qed

theorem validation_throws_on_nonstring_email_witness:
  "status (fst (handleSubscribe (test_runtime [request_number_email]) test_env
                  (mailing_list (test_runtime [request_number_email])) ''T1'' ''T2'' ''POST''
                  [test_stringify request_number_email] nobody)) = 500
   \<and> snd (handleSubscribe (test_runtime [request_number_email]) test_env
            (mailing_list (test_runtime [request_number_email])) ''T1'' ''T2'' ''POST''
            [test_stringify request_number_email] nobody) = nobody"
proof -
  let ?rt = "test_runtime [request_number_email]"
  let ?kvs = "[(''email'', JNum (Some 5)), (''settlementId'', JStr ''tagA''),
               (''settlementName'', JStr ''Name'')] :: (string \<times> rat option json) list"
  have ne: "test_stringify request_number_email \<noteq> []"
    by (simp add: request_number_email_def)
  have h1: "parseJsonBody ?rt [test_stringify request_number_email] = JObj ?kvs"
    using ne by (simp add: parseJsonBody_def test_runtime_def request_number_email_def)
  have h2: "map_of ?kvs ''email'' = Some (JNum (Some 5))"
    by simp
  have h3: "(\<exists>n. JNum (Some 5) = JNum n \<and> num_truthy ?rt n)
            \<or> JNum (Some 5) = JBool True \<or> (\<exists>ps. JNum (Some 5) = JObj ps)"
    by (simp add: test_runtime_def)
  from validation_throws_on_nonstring_email[OF h1 h2 h3, of test_env
      "mailing_list ?rt" "''T1''" "''T2''" nobody]
  obtain m where "handleSubscribe ?rt test_env (mailing_list ?rt) ''T1'' ''T2'' ''POST''
      [test_stringify request_number_email] nobody =
      (\<lparr>status = 500, headers = cors_headers, body = ErrorBody m\<rparr>, nobody)"
    by blast
  then show ?thesis by simp
qed

lemma create_failure_dispatch_aux:
  assumes body: "parseJsonBody rt chunks = JObj kvs"
    and email: "map_of kvs ''email'' = Some (JStr em)" "CHR ''@'' \<in> set em"
    and tag: "map_of kvs ''settlementId'' = Some (JStr tg)" "tg \<noteq> []"
    and name: "map_of kvs ''settlementName'' = Some (JStr nm)" "nm \<noteq> []"
    and dl: "dl = (case js_or rt (map_of kvs ''deadline'') (Some JNull) of
                     None \<Rightarrow> JNull | Some d \<Rightarrow> d)"
    and create: "subscribeToButtondown rt penv fetch now1 (JStr em) (JStr tg) (JStr nm) dl w
                   = (Inl e, w1)"
  shows "(str_includes (message e) ''already subscribed'' \<longrightarrow>
            handleSubscribe rt penv fetch now1 now2 ''POST'' chunks w =
              (case updateButtondownSubscriber rt penv fetch now2
                      (JStr em) (JStr tg) (JStr nm) dl w1 of
                 (Inr r, w2) \<Rightarrow> (success ''Settlement added to your subscriptions!'', w2)
               | (Inl e2, w2) \<Rightarrow> (server_error e2, w2))
            \<and> (\<forall>enc. encodeURIComponent rt em = Inr enc \<longrightarrow>
                 (\<exists>key rest. BUTTONDOWN_API_KEY penv = Some key
                     \<and> calls (snd (handleSubscribe rt penv fetch now1 now2 ''POST'' chunks w))
                     = calls w1 @ search_request key enc # rest)))
       \<and> (\<not> str_includes (message e) ''already subscribed'' \<longrightarrow>
            handleSubscribe rt penv fetch now1 now2 ''POST'' chunks w = (server_error e, w1))
       \<and> calls w1 = calls w @
            (case BUTTONDOWN_API_KEY penv of
               None \<Rightarrow> []
             | Some k \<Rightarrow>
                 if k = [] then []
                 else [create_request k (create_body rt now1 (JStr em) (JStr tg) (JStr nm) dl)])"
proof -
  note st = subscribe_try_valid[OF body email tag name, of penv fetch now1 now2 w,
      folded dl, unfolded create]
  have h: "handleSubscribe rt penv fetch now1 now2 ''POST'' chunks w =
     (if str_includes (message e) ''already subscribed'' then
        (case updateButtondownSubscriber rt penv fetch now2 (JStr em) (JStr tg) (JStr nm) dl w1 of
           (Inr r, w2) \<Rightarrow> (success ''Settlement added to your subscriptions!'', w2)
         | (Inl e2, w2) \<Rightarrow> (server_error e2, w2))
      else (server_error e, w1))"
    by (simp add: handleSubscribe_def st split: prod.splits sum.splits)
  have c: "calls w1 = calls w @
            (case BUTTONDOWN_API_KEY penv of
               None \<Rightarrow> []
             | Some k \<Rightarrow>
                 if k = [] then []
                 else [create_request k (create_body rt now1 (JStr em) (JStr tg) (JStr nm) dl)])"
    using create_calls[of rt penv fetch now1 "JStr em" "JStr tg" "JStr nm" dl w]
    by (simp add: create)
  have s: "\<exists>key rest. BUTTONDOWN_API_KEY penv = Some key
                     \<and> calls (snd (handleSubscribe rt penv fetch now1 now2 ''POST'' chunks w))
                     = calls w1 @ search_request key enc # rest"
    if m: "str_includes (message e) ''already subscribed''"
      and enc: "encodeURIComponent rt em = Inr enc" for enc
  proof -
    from create_match_has_key[OF create m] obtain key
      where k: "BUTTONDOWN_API_KEY penv = Some key" "key \<noteq> []" by blast
    from update_calls[OF k enc, of fetch now2 "JStr tg" "JStr nm" dl w1] obtain rest where
      "calls (snd (updateButtondownSubscriber rt penv fetch now2 (JStr em) (JStr tg) (JStr nm) dl w1))
         = calls w1 @ search_request key enc # rest"
      by blast
    then have "calls (snd (handleSubscribe rt penv fetch now1 now2 ''POST'' chunks w))
                 = calls w1 @ search_request key enc # rest"
      by (auto simp: h m split: prod.splits sum.splits)
    with k(1) show ?thesis by blast
  qed
  from h c s show ?thesis by simp
qed

text \<open>
  C7. Let a valid request reach the create step and let the create fail with error \<open>e\<close>.
  If the message of \<open>e\<close> contains \<^verbatim>\<open>already subscribed\<close>, the answer is that of the
  update path: status 200 with the message \<^verbatim>\<open>Settlement added to your subscriptions!\<close>
  when the update succeeds, status 500 with the update's error otherwise; and once the
  email is encoded the search request (a GET on \<^verbatim>\<open>subscribers?email=...\<close> with the
  credential) follows the requests of the create. If the message does not contain it,
  the answer is status 500 with the message of \<open>e\<close> and the world is the one the create
  left: nothing after the create request has been issued.
\<close>

theorem create_failure_dispatch:
  assumes body: "parseJsonBody rt chunks = JObj kvs"
    and email: "map_of kvs ''email'' = Some (JStr em)" "CHR ''@'' \<in> set em"
    and tag: "map_of kvs ''settlementId'' = Some (JStr tg)" "tg \<noteq> []"
    and name: "map_of kvs ''settlementName'' = Some (JStr nm)" "nm \<noteq> []"
    and dl: "dl = (case map_of kvs ''deadline'' of
                     None \<Rightarrow> JNull
                   | Some d \<Rightarrow> if truthy rt d then d else JNull)"
    and create: "subscribeToButtondown rt penv fetch now1 (JStr em) (JStr tg) (JStr nm) dl w
                   = (Inl e, w1)"
  shows "(str_includes (message e) ''already subscribed'' \<longrightarrow>
            handleSubscribe rt penv fetch now1 now2 ''POST'' chunks w =
              (case updateButtondownSubscriber rt penv fetch now2
                      (JStr em) (JStr tg) (JStr nm) dl w1 of
                 (Inr r, w2) \<Rightarrow>
                   (\<lparr>status = 200, headers = cors_headers,
                     body = SuccessBody ''Settlement added to your subscriptions!''\<rparr>, w2)
               | (Inl e2, w2) \<Rightarrow>
                   (\<lparr>status = 500, headers = cors_headers,
                     body = ErrorBody (if message e2 = []
                                       then ''Failed to subscribe. Please try again.''
                                       else message e2)\<rparr>, w2))
            \<and> (\<forall>enc. encodeURIComponent rt em = Inr enc \<longrightarrow>
                 (\<exists>key rest. BUTTONDOWN_API_KEY penv = Some key
                     \<and> calls (snd (handleSubscribe rt penv fetch now1 now2 ''POST'' chunks w))
                     = calls w1 @
                       Request ''GET''
                         (''https://api.buttondown.email/v1/subscribers?email='' @ enc) []
                         (Some (''Token '' @ key)) None # rest)))
       \<and> (\<not> str_includes (message e) ''already subscribed'' \<longrightarrow>
            handleSubscribe rt penv fetch now1 now2 ''POST'' chunks w =
              (\<lparr>status = 500, headers = cors_headers,
                body = ErrorBody (if message e = []
                                  then ''Failed to subscribe. Please try again.''
                                  else message e)\<rparr>, w1))
       \<and> calls w1 = calls w @
            (case BUTTONDOWN_API_KEY penv of
               None \<Rightarrow> []
             | Some k \<Rightarrow>
                 if k = [] then []
                 else [Request ''POST'' ''https://api.buttondown.email/v1/subscribers'' []
                         (Some (''Token '' @ k))
                         (Some (JObj [(''email_address'', JStr em),
                                      (''tags'', JArr [JStr tg]),
                                      (''metadata'',
                                       JObj ([(''settlementName'', JStr nm),
                                              (''subscribedAt'', JStr now1)]
                                             @ (if truthy rt dl then [(''deadline'', dl)]
                                                else [])))]))])"
proof -
  have dl': "dl = (case js_or rt (map_of kvs ''deadline'') (Some JNull) of
                     None \<Rightarrow> JNull | Some d \<Rightarrow> d)"
    by (simp add: dl js_or_def split: option.splits)
  from create_failure_dispatch_aux[OF body email tag name dl' create, of now2]
  show ?thesis
    unfolding success_def server_error_def search_request_def create_request_def
      create_body_def .
qed

theorem create_failure_dispatch_witness:
  "fst (handleSubscribe engine test_env (mailing_list engine) ''T3'' ''T4'' ''POST''
          [test_stringify request_B] \<lparr>upstream = [subscribed_A], calls = []\<rparr>) =
     \<lparr>status = 200, headers = cors_headers,
      body = SuccessBody ''Settlement added to your subscriptions!''\<rparr>
   \<and> map request_line
         (calls (snd (handleSubscribe engine test_env (mailing_list engine) ''T3'' ''T4'' ''POST''
                        [test_stringify request_B] \<lparr>upstream = [subscribed_A], calls = []\<rparr>))) =
       [(''POST'', ''https://api.buttondown.email/v1/subscribers''),
        (''GET'', ''https://api.buttondown.email/v1/subscribers?email=user%40x.com''),
        (''PATCH'', ''https://api.buttondown.email/v1/subscribers/sub-user@x.com'')]
   \<and> handleSubscribe engine test_env (answers (Rejects (TypeError ''fetch failed'')))
         ''T3'' ''T4'' ''POST'' [test_stringify request_B] idle =
       (\<lparr>status = 500, headers = cors_headers, body = ErrorBody ''fetch failed''\<rparr>,
        \<lparr>upstream = (),
         calls = [Request ''POST'' ''https://api.buttondown.email/v1/subscribers'' []
                    (Some ''Token secret'')
                    (Some (JObj [(''email_address'', JStr ''user@x.com''),
                                 (''tags'', JArr [JStr ''tagB'']),
                                 (''metadata'',
                                  JObj [(''settlementName'', JStr ''Other''),
                                        (''subscribedAt'', JStr ''T3'')])]))]\<rparr>)"
proof -
  let ?kvs = "[(''email'', JStr ''user@x.com''), (''settlementId'', JStr ''tagB''),
               (''settlementName'', JStr ''Other'')] :: (string \<times> rat option json) list"
  let ?cr = "create_request ''secret''
               (create_body engine ''T3'' (JStr ''user@x.com'') (JStr ''tagB'')
                  (JStr ''Other'') JNull)"
  have h2: "map_of ?kvs ''email'' = Some (JStr ''user@x.com'')"
    and h3: "CHR ''@'' \<in> set ''user@x.com''"
    and h4: "map_of ?kvs ''settlementId'' = Some (JStr ''tagB'')" and h5: "''tagB'' \<noteq> []"
    and h6: "map_of ?kvs ''settlementName'' = Some (JStr ''Other'')" and h7: "''Other'' \<noteq> []"
    by simp_all
  have h8: "JNull = (case map_of ?kvs ''deadline'' of
                     None \<Rightarrow> JNull
                   | Some d \<Rightarrow> if truthy engine d then d else JNull)"
    by simp
  have ex: "list_ex (\<lambda>s. sub_email s = ''user@x.com'') [subscribed_A]"
    by (simp add: subscribed_A_def)
  have c1: "subscribeToButtondown engine test_env (mailing_list engine) ''T3''
              (JStr ''user@x.com'') (JStr ''tagB'') (JStr ''Other'') JNull
              \<lparr>upstream = [subscribed_A], calls = []\<rparr> =
            (Inl (Error ''That email address is already subscribed.''),
             \<lparr>upstream = [subscribed_A], calls = [] @ [?cr]\<rparr>)"
    by (rule list_refuses[OF key_secret engine_refusal ex])
  have s1: "sub_email subscribed_A = ''user@x.com''"
    and s2: "sub_tags subscribed_A = JArr (map JStr [''tagA''])"
    and s3: "sub_metadata subscribed_A =
               JObj [(''settlementName'', JStr ''Name''), (''subscribedAt'', JStr ''T1'')]"
    by (simp_all add: subscribed_A_def)
  note u = list_update[OF key_secret encode_user s1 s2 s3, where now = "''T4''"
      and tg = "''tagB''" and nm = "JStr ''Other''" and dl = JNull and cs = "[] @ [?cr]"]
  have c2: "subscribeToButtondown engine test_env (answers (Rejects (TypeError ''fetch failed'')))
              ''T3'' (JStr ''user@x.com'') (JStr ''tagB'') (JStr ''Other'') JNull idle =
            (Inl (TypeError ''fetch failed''), \<lparr>upstream = (), calls = [?cr]\<rparr>)"
    by (simp add: subscribeToButtondown_def test_env_def do_fetch_def answers_def idle_def)
  let ?W = "\<lparr>upstream =
               [subscribed_A\<lparr>sub_tags := JArr (map JStr (if ''tagB'' \<in> set [''tagA'']
                                                        then [''tagA''] else [''tagA''] @ [''tagB''])),
                  sub_metadata :=
                    JObj (AList.update (''settlement_'' @ ''tagB'')
                            (JStr (JSON_stringify engine
                                     (settlement_record (JStr ''Other'') JNull ''T4'')))
                            [(''settlementName'', JStr ''Name''), (''subscribedAt'', JStr ''T1'')])\<rparr>],
             calls = ([] @ [?cr]) @
                       [search_request ''secret'' ''user%40x.com'',
                        patch_request ''secret'' (sub_id subscribed_A)
                          (JArr (map JStr (if ''tagB'' \<in> set [''tagA'']
                                           then [''tagA''] else [''tagA''] @ [''tagB''])))
                          (JObj (AList.update (''settlement_'' @ ''tagB'')
                             (JStr (JSON_stringify engine
                                      (settlement_record (JStr ''Other'') JNull ''T4'')))
                             [(''settlementName'', JStr ''Name''),
                              (''subscribedAt'', JStr ''T1'')]))]\<rparr>"
  from u(2) obtain r where r: "fst (updateButtondownSubscriber engine test_env
      (mailing_list engine) ''T4'' (JStr ''user@x.com'') (JStr ''tagB'') (JStr ''Other'') JNull
      \<lparr>upstream = [subscribed_A], calls = [] @ [?cr]\<rparr>) = Inr r"
    by blast
  have upd: "updateButtondownSubscriber engine test_env
      (mailing_list engine) ''T4'' (JStr ''user@x.com'') (JStr ''tagB'') (JStr ''Other'') JNull
      \<lparr>upstream = [subscribed_A], calls = [] @ [?cr]\<rparr> = (Inr r, ?W)"
    using r u(1) by (simp only: prod_eq_iff fst_conv snd_conv)
  have m: "str_includes (message (Error ''That email address is already subscribed.''))
             ''already subscribed''"
    by simp
  have nm: "\<not> str_includes (message (TypeError ''fetch failed'')) ''already subscribed''"
    by simp
  note d1 = create_failure_dispatch[where fetch = "mailing_list engine"
        and w = "\<lparr>upstream = [subscribed_A], calls = []\<rparr>",
        OF request_B_fields h2 h3 h4 h5 h6 h7 h8 c1, of "''T4''",
        THEN conjunct1, THEN mp, OF m, THEN conjunct1, unfolded upd]
  note d2 = create_failure_dispatch[where fetch = "answers (Rejects (TypeError ''fetch failed''))"
        and w = idle, OF request_B_fields h2 h3 h4 h5 h6 h7 h8 c2, of "''T4''",
        THEN conjunct2, THEN conjunct1, THEN mp, OF nm]
  have a: "fst (handleSubscribe engine test_env (mailing_list engine) ''T3'' ''T4'' ''POST''
          [test_stringify request_B] \<lparr>upstream = [subscribed_A], calls = []\<rparr>) =
     \<lparr>status = 200, headers = cors_headers,
      body = SuccessBody ''Settlement added to your subscriptions!''\<rparr>"
    by (simp add: d1)
  have b: "map request_line
         (calls (snd (handleSubscribe engine test_env (mailing_list engine) ''T3'' ''T4'' ''POST''
                        [test_stringify request_B] \<lparr>upstream = [subscribed_A], calls = []\<rparr>))) =
       [(''POST'', ''https://api.buttondown.email/v1/subscribers''),
        (''GET'', ''https://api.buttondown.email/v1/subscribers?email=user%40x.com''),
        (''PATCH'', ''https://api.buttondown.email/v1/subscribers/sub-user@x.com'')]"
    unfolding d1
    by (simp add: create_request_def search_request_def patch_request_def subscribed_A_def)
  have c: "handleSubscribe engine test_env (answers (Rejects (TypeError ''fetch failed'')))
         ''T3'' ''T4'' ''POST'' [test_stringify request_B] idle =
       (\<lparr>status = 500, headers = cors_headers, body = ErrorBody ''fetch failed''\<rparr>,
        \<lparr>upstream = (),
         calls = [Request ''POST'' ''https://api.buttondown.email/v1/subscribers'' []
                    (Some ''Token secret'')
                    (Some (JObj [(''email_address'', JStr ''user@x.com''),
                                 (''tags'', JArr [JStr ''tagB'']),
                                 (''metadata'',
                                  JObj [(''settlementName'', JStr ''Other''),
                                        (''subscribedAt'', JStr ''T3'')])]))]\<rparr>)"
    by (simp add: d2 create_request_def create_body_def)
  from a b c show ?thesis by blast
qed

lemma update_merges_aux:
  fixes rt :: "'n js_runtime"
  assumes res: "get_prop data ''results'' = Some (JArr (JObj skvs # others))"
    and tags: "map_of skvs ''tags'' = Some (JArr (map JStr tgs))
               \<or> (map_of skvs ''tags'' = None \<and> tgs = [])"
    and md: "map_of skvs ''metadata'' = Some (JObj mkvs)
             \<or> (map_of skvs ''metadata'' = None \<and> mkvs = [])"
    and sid: "ToString_opt rt (map_of skvs ''id'') = Inr sid"
  shows "\<exists>tgs' mkvs'.
      calls (snd (patch_found rt fetch now key data (JStr tg) name dl w1)) =
        calls w1 @ [patch_request key sid (JArr (map JStr tgs')) (JObj mkvs')]
    \<and> tgs' = (if tg \<in> set tgs then tgs else tgs @ [tg])
    \<and> set tgs' = insert tg (set tgs)
    \<and> (distinct tgs \<longrightarrow> distinct tgs' \<and> count_list tgs' tg = 1)
    \<and> map_of mkvs' =
        (map_of mkvs)(''settlement_'' @ tg \<mapsto>
           JStr (JSON_stringify rt (settlement_record name dl now)))
    \<and> (\<forall>skvs2 :: (string \<times> 'n json) list.
          map_of skvs2 ''tags'' = Some (JArr (map JStr tgs')) \<longrightarrow>
          updatedTags rt (JObj skvs2) (JStr tg) = Inr (JArr (map JStr tgs')))"
proof -
  let ?tgs = "if tg \<in> set tgs then tgs else tgs @ [tg]"
  let ?m = "AList.update (''settlement_'' @ tg)
              (JStr (JSON_stringify rt (settlement_record name dl now))) mkvs"
  from res have nn: "data \<noteq> JNull" by auto
  have t: "updatedTags rt (JObj skvs) (JStr tg) = Inr (JArr (map JStr ?tgs))"
    using tags by (intro updatedTags_strings) simp
  have m: "meta rt (JObj skvs) (JStr tg) name dl now = Inr (JObj ?m)"
    using md by (intro meta_object) simp
  have 1: "calls (snd (patch_found rt fetch now key data (JStr tg) name dl w1)) =
        calls w1 @ [patch_request key sid (JArr (map JStr ?tgs)) (JObj ?m)]"
    using res nn sid
    by (auto simp: patch_found_def t m do_fetch_def
          split: prod.splits fetch_result.splits sum.splits)
  have 2: "set ?tgs = insert tg (set tgs)" by auto
  have 3: "distinct tgs \<longrightarrow> distinct ?tgs \<and> count_list ?tgs tg = 1"
    by (auto simp: count_list_distinct count_list_0_iff)
  have 4: "map_of ?m = (map_of mkvs)(''settlement_'' @ tg \<mapsto>
           JStr (JSON_stringify rt (settlement_record name dl now)))"
    by (simp add: update_conv')
  have 5: "\<forall>skvs2 :: (string \<times> 'n json) list.
          map_of skvs2 ''tags'' = Some (JArr (map JStr ?tgs)) \<longrightarrow>
          updatedTags rt (JObj skvs2) (JStr tg) = Inr (JArr (map JStr ?tgs))"
  proof (intro allI impI)
    fix skvs2 :: "(string \<times> 'n json) list"
    assume "map_of skvs2 ''tags'' = Some (JArr (map JStr ?tgs))"
    then have "updatedTags rt (JObj skvs2) (JStr tg) =
                 Inr (JArr (map JStr (if tg \<in> set ?tgs then ?tgs else ?tgs @ [tg])))"
      by (intro updatedTags_strings) simp
    then show "updatedTags rt (JObj skvs2) (JStr tg) = Inr (JArr (map JStr ?tgs))"
      by (simp split: if_splits)
  qed
  from 1 2 3 4 5 show ?thesis by blast
qed

text \<open>
  C8. Let the update path search for the subscriber and the search answer with a first
  result whose tags are a list of strings \<open>tgs\<close> (or absent) and whose metadata is an
  object (or absent). The update then issues exactly the search and the PATCH of that
  subscriber. The tags of the PATCH are \<open>tgs\<close> when the tag occurs in them and \<open>tgs\<close>
  followed by the tag otherwise: the tag is there, no other tag is dropped, and when
  \<open>tgs\<close> has no duplicates the result has none and holds the tag exactly once. The
  metadata of the PATCH, read as a map, is the old metadata with \<^verbatim>\<open>settlement_<tag>\<close>
  set to \<^verbatim>\<open>JSON.stringify({ name, deadline, subscribedAt })\<close> and every other key as
  before. Merging the same tag into the merged tags gives the same tags again.
\<close>

theorem update_merges:
  fixes rt :: "'n js_runtime"
  assumes key: "BUTTONDOWN_API_KEY penv = Some key" "key \<noteq> []"
    and enc: "encodeURIComponent rt em = Inr enc"
    and search: "fetch (upstream w)
                   (Request ''GET''
                      (''https://api.buttondown.email/v1/subscribers?email='' @ enc) []
                      (Some (''Token '' @ key)) None)
                 = (Resp True bt (Inr data), u1)"
    and res: "get_prop data ''results'' = Some (JArr (JObj skvs # others))"
    and tags: "map_of skvs ''tags'' = Some (JArr (map JStr tgs))
               \<or> (map_of skvs ''tags'' = None \<and> tgs = [])"
    and md: "map_of skvs ''metadata'' = Some (JObj mkvs)
             \<or> (map_of skvs ''metadata'' = None \<and> mkvs = [])"
    and sid: "ToString_opt rt (map_of skvs ''id'') = Inr sid"
  shows "\<exists>tgs' mkvs'.
      calls (snd (updateButtondownSubscriber rt penv fetch now (JStr em) (JStr tg) name dl w)) =
        calls w @
        [Request ''GET'' (''https://api.buttondown.email/v1/subscribers?email='' @ enc) []
           (Some (''Token '' @ key)) None,
         Request ''PATCH'' (''https://api.buttondown.email/v1/subscribers/'' @ sid) []
           (Some (''Token '' @ key))
           (Some (JObj [(''tags'', JArr (map JStr tgs')), (''metadata'', JObj mkvs')]))]
    \<and> tgs' = (if tg \<in> set tgs then tgs else tgs @ [tg])
    \<and> set tgs' = insert tg (set tgs)
    \<and> (distinct tgs \<longrightarrow> distinct tgs' \<and> count_list tgs' tg = 1)
    \<and> map_of mkvs' =
        (map_of mkvs)(''settlement_'' @ tg \<mapsto>
           JStr (JSON_stringify rt
                   (JObj [(''name'', name), (''deadline'', dl), (''subscribedAt'', JStr now)])))
    \<and> (\<forall>skvs2 :: (string \<times> 'n json) list.
          map_of skvs2 ''tags'' = Some (JArr (map JStr tgs')) \<longrightarrow>
          updatedTags rt (JObj skvs2) (JStr tg) = Inr (JArr (map JStr tgs')))"
proof -
  let ?w1 = "\<lparr>upstream = u1, calls = calls w @ [search_request key enc]\<rparr>"
  from search have f: "fetch (upstream w) (search_request key enc)
                         = (Resp True bt (Inr data), u1)"
    by (simp add: search_request_def)
  have u: "updateButtondownSubscriber rt penv fetch now (JStr em) (JStr tg) name dl w =
             patch_found rt fetch now key data (JStr tg) name dl ?w1"
    by (simp add: update_with_key[where fetch = fetch and w = w, OF key enc f])
  from update_merges_aux[OF res tags md sid, of fetch now key tg name dl ?w1]
  obtain tgs' mkvs' where
    c: "calls (snd (patch_found rt fetch now key data (JStr tg) name dl ?w1)) =
          calls ?w1 @ [patch_request key sid (JArr (map JStr tgs')) (JObj mkvs')]"
    and r: "tgs' = (if tg \<in> set tgs then tgs else tgs @ [tg])"
      "set tgs' = insert tg (set tgs)"
      "distinct tgs \<longrightarrow> distinct tgs' \<and> count_list tgs' tg = 1"
    and m: "map_of mkvs' =
        (map_of mkvs)(''settlement_'' @ tg \<mapsto>
           JStr (JSON_stringify rt (settlement_record name dl now)))"
    and i: "\<forall>skvs2 :: (string \<times> 'n json) list.
          map_of skvs2 ''tags'' = Some (JArr (map JStr tgs')) \<longrightarrow>
          updatedTags rt (JObj skvs2) (JStr tg) = Inr (JArr (map JStr tgs'))"
    by blast
  have c': "calls (snd (updateButtondownSubscriber rt penv fetch now (JStr em) (JStr tg)
                          name dl w)) =
        calls w @
        [Request ''GET'' (''https://api.buttondown.email/v1/subscribers?email='' @ enc) []
           (Some (''Token '' @ key)) None,
         Request ''PATCH'' (''https://api.buttondown.email/v1/subscribers/'' @ sid) []
           (Some (''Token '' @ key))
           (Some (JObj [(''tags'', JArr (map JStr tgs')), (''metadata'', JObj mkvs')]))]"
    using c by (simp add: u search_request_def patch_request_def)
  have m': "map_of mkvs' =
        (map_of mkvs)(''settlement_'' @ tg \<mapsto>
           JStr (JSON_stringify rt
                   (JObj [(''name'', name), (''deadline'', dl), (''subscribedAt'', JStr now)])))"
    using m by (simp add: settlement_record_def)
  from c' r m' i show ?thesis by blast
qed

theorem update_merges_witness:
  "\<exists>mkvs'.
      calls (snd (updateButtondownSubscriber engine test_env (mailing_list engine) ''T4''
                    (JStr ''user@x.com'') (JStr ''tagB'') (JStr ''Other'') JNull
                    \<lparr>upstream = [subscribed_A], calls = []\<rparr>)) =
        [Request ''GET'' ''https://api.buttondown.email/v1/subscribers?email=user%40x.com'' []
           (Some ''Token secret'') None,
         Request ''PATCH'' ''https://api.buttondown.email/v1/subscribers/sub-user@x.com'' []
           (Some ''Token secret'')
           (Some (JObj [(''tags'', JArr [JStr ''tagA'', JStr ''tagB'']),
                        (''metadata'', JObj mkvs')]))]
    \<and> map_of mkvs' ''settlement_tagB'' =
        Some (JStr (test_stringify
                      (JObj [(''name'', JStr ''Other''), (''deadline'', JNull),
                             (''subscribedAt'', JStr ''T4'')])))
    \<and> map_of mkvs' ''settlementName'' = Some (JStr ''Name'')
    \<and> map_of mkvs' ''subscribedAt'' = Some (JStr ''T1'')"
proof -
  let ?skvs = "[(''id'', JStr ''sub-user@x.com''), (''email_address'', JStr ''user@x.com''),
                (''tags'', JArr [JStr ''tagA'']),
                (''metadata'', JObj [(''settlementName'', JStr ''Name''),
                                     (''subscribedAt'', JStr ''T1'')])]
               :: (string \<times> rat option json) list"
  let ?mkvs = "[(''settlementName'', JStr ''Name''), (''subscribedAt'', JStr ''T1'')]
               :: (string \<times> rat option json) list"
  let ?data = "JObj [(''results'', JArr [JObj ?skvs])] :: rat option json"
  let ?w = "\<lparr>upstream = [subscribed_A], calls = []\<rparr>
            :: (rat option subscriber list, rat option) world"
  have h0: "mailing_list engine (upstream ?w)
              (Request ''GET''
                 (''https://api.buttondown.email/v1/subscribers?email='' @ ''user%40x.com'') []
                 (Some (''Token '' @ ''secret'')) None)
            = (Resp True (Inr (test_stringify ?data)) (Inr ?data), [subscribed_A])"
    using encode_user
    by (simp add: search_matches_def answer_def engine_stringify subscriber_json_def
          subscribed_A_def)
  have h1: "get_prop ?data ''results'' = Some (JArr (JObj ?skvs # []))"
    by simp
  have h2: "map_of ?skvs ''tags'' = Some (JArr (map JStr [''tagA'']))
            \<or> (map_of ?skvs ''tags'' = None \<and> [''tagA''] = [])"
    by simp
  have h3: "map_of ?skvs ''metadata'' = Some (JObj ?mkvs)
            \<or> (map_of ?skvs ''metadata'' = None \<and> ?mkvs = [])"
    by simp
  have h4: "ToString_opt engine (map_of ?skvs ''id'') = Inr ''sub-user@x.com''"
    by simp
  from update_merges[where fetch = "mailing_list engine" and w = ?w,
      OF key_secret encode_user h0 h1 h2 h3 h4, of "''T4''" "''tagB''" "JStr ''Other''" JNull]
  obtain tgs' mkvs' where
    c: "calls (snd (updateButtondownSubscriber engine test_env (mailing_list engine) ''T4''
                    (JStr ''user@x.com'') (JStr ''tagB'') (JStr ''Other'') JNull ?w)) =
        calls ?w @
        [Request ''GET''
           (''https://api.buttondown.email/v1/subscribers?email='' @ ''user%40x.com'') []
           (Some (''Token '' @ ''secret'')) None,
         Request ''PATCH'' (''https://api.buttondown.email/v1/subscribers/'' @ ''sub-user@x.com'')
           [] (Some (''Token '' @ ''secret''))
           (Some (JObj [(''tags'', JArr (map JStr tgs')), (''metadata'', JObj mkvs')]))]"
    and t: "tgs' = (if ''tagB'' \<in> set [''tagA''] then [''tagA''] else [''tagA''] @ [''tagB''])"
    and m: "map_of mkvs' = (map_of ?mkvs)(''settlement_'' @ ''tagB'' \<mapsto>
              JStr (JSON_stringify engine
                      (JObj [(''name'', JStr ''Other''), (''deadline'', JNull),
                             (''subscribedAt'', JStr ''T4'')])))"
    by blast
  from t have t': "tgs' = [''tagA'', ''tagB'']" by simp
  have "calls (snd (updateButtondownSubscriber engine test_env (mailing_list engine) ''T4''
                    (JStr ''user@x.com'') (JStr ''tagB'') (JStr ''Other'') JNull
                    \<lparr>upstream = [subscribed_A], calls = []\<rparr>)) =
        [Request ''GET'' ''https://api.buttondown.email/v1/subscribers?email=user%40x.com'' []
           (Some ''Token secret'') None,
         Request ''PATCH'' ''https://api.buttondown.email/v1/subscribers/sub-user@x.com'' []
           (Some ''Token secret'')
           (Some (JObj [(''tags'', JArr [JStr ''tagA'', JStr ''tagB'']),
                        (''metadata'', JObj mkvs')]))]"
    using c by (simp add: t')
  moreover have "map_of mkvs' ''settlement_tagB'' =
        Some (JStr (test_stringify
                      (JObj [(''name'', JStr ''Other''), (''deadline'', JNull),
                             (''subscribedAt'', JStr ''T4'')])))"
    by (simp add: m engine_stringify)
  moreover have "map_of mkvs' ''settlementName'' = Some (JStr ''Name'')"
    by (simp add: m)
  moreover have "map_of mkvs' ''subscribedAt'' = Some (JStr ''T1'')"
    by (simp add: m)
  ultimately show ?thesis by blast
qed

text \<open>
  C1. With the credential set, the create path issues one POST whose tags are
  \<^verbatim>\<open>[tag]\<close> and whose metadata is the flat object with the keys \<^verbatim>\<open>settlementName\<close>,
  \<^verbatim>\<open>subscribedAt\<close> and, for a truthy deadline, \<^verbatim>\<open>deadline\<close>. No settlement record is
  stored under \<^verbatim>\<open>settlement_<tag>\<close>: that key is not in the metadata sent.
\<close>

theorem create_metadata_flat:
  assumes "BUTTONDOWN_API_KEY penv = Some key" "key \<noteq> []"
  shows "calls (snd (subscribeToButtondown rt penv fetch now email (JStr tg) name dl w)) =
        calls w @ [create_request key
                     (JObj [(''email_address'', email), (''tags'', JArr [JStr tg]),
                            (''metadata'',
                             JObj ((''settlementName'', name) # (''subscribedAt'', JStr now)
                                   # (if truthy rt dl then [(''deadline'', dl)] else [])))])]
    \<and> map_of ((''settlementName'', name) # (''subscribedAt'', JStr now)
               # (if truthy rt dl then [(''deadline'', dl)] else []))
         (''settlement_'' @ tg) = None"
  using assms
  by (simp add: create_calls create_body_def)

theorem create_metadata_flat_witness:
  "calls (snd (subscribeToButtondown engine test_env (mailing_list engine) ''T1''
                 (JStr ''user@x.com'') (JStr ''tagA'') (JStr ''Name'') JNull nobody)) =
     [create_request ''secret''
        (JObj [(''email_address'', JStr ''user@x.com''), (''tags'', JArr [JStr ''tagA'']),
               (''metadata'',
                JObj [(''settlementName'', JStr ''Name''), (''subscribedAt'', JStr ''T1'')])])]
   \<and> map_of [(''settlementName'', JStr ''Name''), (''subscribedAt'', JStr ''T1'')]
        ''settlement_tagA'' = (None :: rat option json option)
   \<and> upstream (snd (handleSubscribe engine test_env (mailing_list engine) ''T1'' ''T2'' ''POST''
                      [test_stringify request_A] nobody)) = [subscribed_A]"
proof -
  have u: "upstream (snd (handleSubscribe engine test_env (mailing_list engine) ''T1'' ''T2''
                      ''POST'' [test_stringify request_A] nobody)) = [subscribed_A]"
    by (simp add: handleSubscribe_valid[OF request_A_fields] nobody_def
          list_create[OF key_secret] subscribed_A_def)
  show ?thesis
    using create_metadata_flat[OF key_secret, of engine "mailing_list engine" "''T1''"
        "JStr ''user@x.com''" "''tagA''" "JStr ''Name''" JNull nobody] u
    by (simp add: nobody_def)
qed

text \<open>
  C10. \<^verbatim>\<open>parseJsonBody\<close> is total. For an empty body (read as \<^verbatim>\<open>'{}'\<close>) and for a body
  that \<^verbatim>\<open>JSON.parse\<close> rejects, it yields the empty object, and \<^verbatim>\<open>handleSubscribe\<close>
  answers 400 \<^verbatim>\<open>Invalid email address\<close> without issuing a request.
\<close>

theorem malformed_body_rejected:
  assumes "(concat chunks = [] \<and> JSON_parse rt ''{}'' = Inr (JObj []))
           \<or> (concat chunks \<noteq> [] \<and> (\<exists>e. JSON_parse rt (concat chunks) = Inl e))"
  shows "parseJsonBody rt chunks = JObj []
       \<and> handleSubscribe rt penv fetch now1 now2 ''POST'' chunks w =
           (\<lparr>status = 400, headers = cors_headers,
             body = ErrorBody ''Invalid email address''\<rparr>, w)"
proof -
  from assms have p: "parseJsonBody rt chunks = JObj []"
    by (auto simp: parseJsonBody_def Let_def)
  then show ?thesis
    by (simp add: handleSubscribe_def bad_request_def subscribe_try_bad_email[OF p])
qed

theorem malformed_body_rejected_witness:
  "handleSubscribe engine test_env (mailing_list engine) ''T1'' ''T2'' ''POST'' [] nobody =
     (\<lparr>status = 400, headers = cors_headers, body = ErrorBody ''Invalid email address''\<rparr>,
      nobody)
   \<and> handleSubscribe engine test_env (mailing_list engine) ''T1'' ''T2'' ''POST''
       [''{email:'', '' broken''] nobody =
     (\<lparr>status = 400, headers = cors_headers, body = ErrorBody ''Invalid email address''\<rparr>,
      nobody)"
  using malformed_body_rejected[where rt = engine and chunks = "[]"
      and penv = test_env and fetch = "mailing_list engine" and w = nobody
      and ?now1.0 = "''T1''" and ?now2.0 = "''T2''"]
    malformed_body_rejected[where rt = engine and chunks = "[''{email:'', '' broken'']"
      and penv = test_env and fetch = "mailing_list engine" and w = nobody
      and ?now1.0 = "''T1''" and ?now2.0 = "''T2''"]
  by (simp add: engine_def test_runtime_def request_A_def request_B_def
        request_no_at_def already_subscribed_def quote_string_def)

text \<open>
  C9. Let a valid request reach the create step, the create fail with a message that
  contains \<^verbatim>\<open>already subscribed\<close>, and the search answer ok with an object whose
  \<^verbatim>\<open>results\<close> are absent, \<^verbatim>\<open>null\<close> or the empty list. Then \<^verbatim>\<open>handleSubscribe\<close>
  answers 500 with \<^verbatim>\<open>Subscriber not found\<close>, and the search is the last request issued:
  there is no PATCH.
\<close>

theorem subscriber_not_found:
  assumes body: "parseJsonBody rt chunks = JObj kvs"
    and email: "map_of kvs ''email'' = Some (JStr em)" "CHR ''@'' \<in> set em"
    and tag: "map_of kvs ''settlementId'' = Some (JStr tg)" "tg \<noteq> []"
    and name: "map_of kvs ''settlementName'' = Some (JStr nm)" "nm \<noteq> []"
    and dl: "dl = (case js_or rt (map_of kvs ''deadline'') (Some JNull) of
                     None \<Rightarrow> JNull | Some d \<Rightarrow> d)"
    and create: "subscribeToButtondown rt penv fetch now1 (JStr em) (JStr tg) (JStr nm) dl w
                   = (Inl e, w1)"
    and match: "str_includes (message e) ''already subscribed''"
    and key: "BUTTONDOWN_API_KEY penv = Some key"
    and enc: "encodeURIComponent rt em = Inr enc"
    and search: "fetch (upstream w1) (search_request key enc) = (Resp True bt (Inr (JObj dkvs)), u2)"
    and none: "map_of dkvs ''results'' = None \<or> map_of dkvs ''results'' = Some JNull
               \<or> map_of dkvs ''results'' = Some (JArr [])"
  shows "handleSubscribe rt penv fetch now1 now2 ''POST'' chunks w =
           (\<lparr>status = 500, headers = cors_headers, body = ErrorBody ''Subscriber not found''\<rparr>,
            \<lparr>upstream = u2, calls = calls w1 @ [search_request key enc]\<rparr>)"
proof -
  from create_match_has_key[OF create match] key have k: "key \<noteq> []" by auto
  have pf: "patch_found rt fetch now2 key (JObj dkvs) (JStr tg) (JStr nm) dl w' =
              (Inl (Error ''Subscriber not found''), w')" for w'
    using none by (auto simp: patch_found_def)
  have u: "updateButtondownSubscriber rt penv fetch now2 (JStr em) (JStr tg) (JStr nm) dl w1 =
             (Inl (Error ''Subscriber not found''),
              \<lparr>upstream = u2, calls = calls w1 @ [search_request key enc]\<rparr>)"
    by (simp add: update_with_key[where fetch = fetch and w = w1, OF key k enc search] pf)
  note st = subscribe_try_valid[OF body email tag name, of penv fetch now1 now2 w,
      folded dl, unfolded create]
  show ?thesis
    by (simp add: handleSubscribe_def st match u server_error_def)
qed

theorem subscriber_not_found_witness:
  "handleSubscribe engine test_env inconsistent ''T1'' ''T2'' ''POST''
     [test_stringify request_B] idle =
     (\<lparr>status = 500, headers = cors_headers, body = ErrorBody ''Subscriber not found''\<rparr>,
      \<lparr>upstream = (),
       calls = [create_request ''secret''
                  (create_body engine ''T1'' (JStr ''user@x.com'') (JStr ''tagB'')
                     (JStr ''Other'') JNull),
                search_request ''secret'' ''user%40x.com'']\<rparr>)"
proof -
  let ?kvs = "[(''email'', JStr ''user@x.com''), (''settlementId'', JStr ''tagB''),
               (''settlementName'', JStr ''Other'')] :: (string \<times> rat option json) list"
  let ?w1 = "\<lparr>upstream = (),
       calls = [] @ [create_request ''secret''
                  (create_body engine ''T1'' (JStr ''user@x.com'') (JStr ''tagB'')
                     (JStr ''Other'') JNull)]\<rparr> :: (unit, rat option) world"
  have h1: "parseJsonBody engine [test_stringify request_B] = JObj ?kvs"
    unfolding parse_B by (simp add: request_B_def)
  have h2: "map_of ?kvs ''email'' = Some (JStr ''user@x.com'')"
    and h3: "CHR ''@'' \<in> set ''user@x.com''"
    and h4: "map_of ?kvs ''settlementId'' = Some (JStr ''tagB'')" and h5: "''tagB'' \<noteq> []"
    and h6: "map_of ?kvs ''settlementName'' = Some (JStr ''Other'')" and h7: "''Other'' \<noteq> []"
    by simp_all
  have h8: "JNull = (case js_or engine (map_of ?kvs ''deadline'') (Some JNull) of
                     None \<Rightarrow> JNull | Some d \<Rightarrow> d)"
    by (simp add: js_or_def)
  have h9: "subscribeToButtondown engine test_env inconsistent ''T1'' (JStr ''user@x.com'')
              (JStr ''tagB'') (JStr ''Other'') JNull idle =
            (Inl (Error ''That email address is already subscribed.''), ?w1)"
    unfolding idle_def by (rule refused)
  have h10: "str_includes (message (Error ''That email address is already subscribed.''))
               ''already subscribed''"
    by simp
  have h11: "BUTTONDOWN_API_KEY test_env = Some ''secret''"
    by (simp add: test_env_def)
  have h12: "inconsistent (upstream ?w1) (search_request ''secret'' ''user%40x.com'') =
        (Resp True (Inr (test_stringify (JObj [(''results'', JArr [])])))
           (Inr (JObj [(''results'', JArr [])])), ())"
    by (simp add: search_request_def answer_def engine_stringify)
  have h13: "map_of [(''results'', JArr [])] ''results'' = None
        \<or> map_of [(''results'', JArr [])] ''results'' = Some JNull
        \<or> map_of [(''results'', JArr [])] ''results'' = Some (JArr ([] :: rat option json list))"
    by simp
  show ?thesis
    using subscriber_not_found[where fetch = inconsistent and w = idle and ?w1.0 = ?w1,
        OF h1 h2 h3 h4 h5 h6 h7 h8 h9 h10 h11 encode_user h12 h13, of "''T2''"]
    by simp
qed

text \<open>
  C2. Against the mailing list with no subscriber, let two valid requests for the same
  email and two different tags \<open>tagA\<close> then \<open>tagB\<close> be served. Both are answered 200.
  The list then holds one subscriber whose tags are \<open>tagA\<close>, \<open>tagB\<close> and whose metadata
  has the keys \<^verbatim>\<open>settlementName\<close> and \<^verbatim>\<open>subscribedAt\<close> written by the create of the
  first call, and \<^verbatim>\<open>settlement_<tagB>\<close> written by the update of the second. It has no
  key \<^verbatim>\<open>settlement_<tagA>\<close>.
\<close>

theorem two_tags_first_unkeyed:
  assumes key: "BUTTONDOWN_API_KEY penv = Some key" "key \<noteq> []"
    and refusal: "JSON_parse rt (JSON_stringify rt already_subscribed) = Inr already_subscribed"
    and enc: "encodeURIComponent rt em = Inr enc"
    and A: "parseJsonBody rt chunksA =
              JObj [(''email'', JStr em), (''settlementId'', JStr tagA),
                    (''settlementName'', JStr nameA)]"
    and B: "parseJsonBody rt chunksB =
              JObj [(''email'', JStr em), (''settlementId'', JStr tagB),
                    (''settlementName'', JStr nameB)]"
    and valid: "CHR ''@'' \<in> set em" "tagA \<noteq> []" "nameA \<noteq> []" "tagB \<noteq> []" "nameB \<noteq> []"
    and diff: "tagA \<noteq> tagB"
    and first: "handleSubscribe rt penv (mailing_list rt) t1 t2 ''POST'' chunksA
                  \<lparr>upstream = [], calls = []\<rparr> = (r1, w1)"
    and second: "handleSubscribe rt penv (mailing_list rt) t3 t4 ''POST'' chunksB w1 = (r2, w2)"
  shows "status r1 = 200 \<and> status r2 = 200
       \<and> upstream w2 =
           [\<lparr>sub_id = ''sub-'' @ em, sub_email = em,
             sub_tags = JArr [JStr tagA, JStr tagB],
             sub_metadata =
               JObj [(''settlementName'', JStr nameA), (''subscribedAt'', JStr t1),
                     (''settlement_'' @ tagB,
                      JStr (JSON_stringify rt (settlement_record (JStr nameB) JNull t4)))]\<rparr>]
       \<and> map_of [(''settlementName'', JStr nameA), (''subscribedAt'', JStr t1),
                  (''settlement_'' @ tagB,
                   JStr (JSON_stringify rt (settlement_record (JStr nameB) JNull t4)))]
            (''settlement_'' @ tagA) = None"
proof -
  let ?s = "\<lparr>sub_id = ''sub-'' @ em, sub_email = em, sub_tags = JArr [JStr tagA],
             sub_metadata =
               JObj ((''settlementName'', JStr nameA) # (''subscribedAt'', JStr t1)
                     # (if truthy rt JNull then [(''deadline'', JNull)] else []))\<rparr>"
  let ?c1 = "[] @ [create_request key (create_body rt t1 (JStr em) (JStr tagA) (JStr nameA) JNull)]"
  have 1: "handleSubscribe rt penv (mailing_list rt) t1 t2 ''POST'' chunksA
             \<lparr>upstream = [], calls = []\<rparr> =
           (success created_message, \<lparr>upstream = [?s], calls = ?c1\<rparr>)"
    using valid
    by (simp add: handleSubscribe_valid[OF A] list_create[OF key])
  with first have r1: "r1 = success created_message"
    and w1: "w1 = \<lparr>upstream = [?s], calls = ?c1\<rparr>"
    by simp_all
  have ex: "list_ex (\<lambda>s. sub_email s = em) [?s]" by simp
  have m: "str_includes (message (Error ''That email address is already subscribed.''))
             ''already subscribed''"
    by simp
  have s1: "sub_email ?s = em" and s2: "sub_tags ?s = JArr (map JStr [tagA])"
    and s3: "sub_metadata ?s =
               JObj [(''settlementName'', JStr nameA), (''subscribedAt'', JStr t1)]"
    by simp_all
  note u = list_update[OF key enc s1 s2 s3, where now = t4 and tg = tagB and nm = "JStr nameB"
      and dl = JNull
      and cs = "?c1 @ [create_request key
                         (create_body rt t3 (JStr em) (JStr tagB) (JStr nameB) JNull)]"]
  from u(2) obtain r where
    "fst (updateButtondownSubscriber rt penv (mailing_list rt) t4 (JStr em) (JStr tagB)
            (JStr nameB) JNull
            \<lparr>upstream = [?s],
               calls = ?c1 @ [create_request key
                                (create_body rt t3 (JStr em) (JStr tagB) (JStr nameB) JNull)]\<rparr>)
       = Inr r"
    by blast
  then have 2: "handleSubscribe rt penv (mailing_list rt) t3 t4 ''POST'' chunksB w1 =
      (success ''Settlement added to your subscriptions!'',
       snd (updateButtondownSubscriber rt penv (mailing_list rt) t4 (JStr em) (JStr tagB)
            (JStr nameB) JNull
            \<lparr>upstream = [?s],
               calls = ?c1 @ [create_request key
                                (create_body rt t3 (JStr em) (JStr tagB) (JStr nameB) JNull)]\<rparr>))"
    using valid
    by (auto simp: handleSubscribe_valid[OF B] w1 list_refuses[OF key refusal]
          split: prod.splits sum.splits)
  with second have r2: "r2 = success ''Settlement added to your subscriptions!''"
    and w2: "w2 = snd (updateButtondownSubscriber rt penv (mailing_list rt) t4 (JStr em)
            (JStr tagB) (JStr nameB) JNull
            \<lparr>upstream = [?s],
               calls = ?c1 @ [create_request key
                                (create_body rt t3 (JStr em) (JStr tagB) (JStr nameB) JNull)]\<rparr>)"
    by simp_all
  have up: "upstream w2 =
           [\<lparr>sub_id = ''sub-'' @ em, sub_email = em,
             sub_tags = JArr [JStr tagA, JStr tagB],
             sub_metadata =
               JObj [(''settlementName'', JStr nameA), (''subscribedAt'', JStr t1),
                     (''settlement_'' @ tagB,
                      JStr (JSON_stringify rt (settlement_record (JStr nameB) JNull t4)))]\<rparr>]"
    using diff u(1) by (simp add: w2)
  have no: "map_of [(''settlementName'', JStr nameA), (''subscribedAt'', JStr t1),
                  (''settlement_'' @ tagB,
                   JStr (JSON_stringify rt (settlement_record (JStr nameB) JNull t4)))]
            (''settlement_'' @ tagA) = None"
    using diff by simp
  from r1 r2 up no show ?thesis
    by (simp add: success_def)
qed

theorem two_tags_first_unkeyed_witness:
  "upstream (snd (handleSubscribe engine test_env (mailing_list engine) ''T3'' ''T4'' ''POST''
                    [test_stringify request_B]
                    (snd (handleSubscribe engine test_env (mailing_list engine) ''T1'' ''T2''
                            ''POST'' [test_stringify request_A] nobody)))) =
     [\<lparr>sub_id = ''sub-user@x.com'', sub_email = ''user@x.com'',
       sub_tags = JArr [JStr ''tagA'', JStr ''tagB''],
       sub_metadata =
         JObj [(''settlementName'', JStr ''Name''), (''subscribedAt'', JStr ''T1''),
               (''settlement_tagB'',
                JStr (test_stringify (settlement_record (JStr ''Other'') JNull ''T4'')))]\<rparr>]
   \<and> map_of [(''settlementName'', JStr ''Name''), (''subscribedAt'', JStr ''T1''),
              (''settlement_tagB'',
               JStr (test_stringify (settlement_record (JStr ''Other'') JNull ''T4'')))]
        ''settlement_tagA'' = (None :: rat option json option)"
proof -
  have v: "CHR ''@'' \<in> set ''user@x.com''" "''tagA'' \<noteq> []" "''Name'' \<noteq> []"
    "''tagB'' \<noteq> []" "''Other'' \<noteq> []" "''tagA'' \<noteq> ''tagB''"
    by simp_all
  have f: "handleSubscribe engine test_env (mailing_list engine) ''T1'' ''T2'' ''POST''
             [test_stringify request_A] \<lparr>upstream = [], calls = []\<rparr> =
           (fst (handleSubscribe engine test_env (mailing_list engine) ''T1'' ''T2'' ''POST''
                   [test_stringify request_A] nobody),
            snd (handleSubscribe engine test_env (mailing_list engine) ''T1'' ''T2'' ''POST''
                   [test_stringify request_A] nobody))"
    by (simp add: nobody_def)
  have g: "handleSubscribe engine test_env (mailing_list engine) ''T3'' ''T4'' ''POST''
             [test_stringify request_B]
             (snd (handleSubscribe engine test_env (mailing_list engine) ''T1'' ''T2'' ''POST''
                   [test_stringify request_A] nobody)) =
           (fst (handleSubscribe engine test_env (mailing_list engine) ''T3'' ''T4'' ''POST''
                   [test_stringify request_B]
                   (snd (handleSubscribe engine test_env (mailing_list engine) ''T1'' ''T2''
                           ''POST'' [test_stringify request_A] nobody))),
            snd (handleSubscribe engine test_env (mailing_list engine) ''T3'' ''T4'' ''POST''
                   [test_stringify request_B]
                   (snd (handleSubscribe engine test_env (mailing_list engine) ''T1'' ''T2''
                           ''POST'' [test_stringify request_A] nobody))))"
    by simp
  show ?thesis
    using two_tags_first_unkeyed[OF key_secret engine_refusal encode_user
        request_A_fields request_B_fields v f g]
    by (simp add: engine_stringify)
qed

end
